theory Spec2Isabelle
  imports Complex_Main
begin

section \<open>JavaScript values as the ingestion code sees them\<close>

text \<open>
  The functions of \<^verbatim>\<open>src/lib/backend/google-sheets-client.ts\<close> work on
  untyped spreadsheet values: a row cell is \<^verbatim>\<open>string | number | null | undefined\<close>,
  a worksheet cell's \<^verbatim>\<open>v\<close> may also be a boolean.  A number is a double; the code
  only asks whether it is \<^verbatim>\<open>NaN\<close> or zero, so the finite ones are kept as
  rationals (both zeros are \<open>Finite 0\<close>: \<^verbatim>\<open>-0 === 0\<close>, both are falsy and both
  print as \<^verbatim>\<open>"0"\<close>).
\<close>

datatype jsnumber = NaN | PosInfinity | NegInfinity | Finite rat

datatype jsval = JUndefined | JNull | JBool bool | JNum jsnumber | JStr string

text \<open>
  Two built-ins of the language depend on the binary representation of doubles and are
  not part of the repository: printing a number (\<^verbatim>\<open>String(n)\<close>,
  \<^verbatim>\<open>n.toString()\<close>) and reading a number from a string (\<^verbatim>\<open>Number(s)\<close>).
  They are parameters of the model; every theorem below holds for all of them.
\<close>

record js_builtins =
  Number_toString :: "jsnumber \<Rightarrow> string"
  StringToNumber :: "string \<Rightarrow> jsnumber"

text \<open>Truthiness, as used by \<^verbatim>\<open>!v\<close>, \<^verbatim>\<open>a || b\<close> and \<^verbatim>\<open>c ? x : y\<close>.\<close>

fun truthy :: "jsval \<Rightarrow> bool" where
  "truthy JUndefined = False"
| "truthy JNull = False"
| "truthy (JBool b) = b"
| "truthy (JNum n) = (n \<noteq> NaN \<and> n \<noteq> Finite 0)"
| "truthy (JStr s) = (s \<noteq> [])"

text \<open>\<^verbatim>\<open>a || b\<close>\<close>

definition js_or :: "jsval \<Rightarrow> jsval \<Rightarrow> jsval" where
  "js_or a b = (if truthy a then a else b)"

text \<open>\<^verbatim>\<open>String(v)\<close>\<close>

fun String_js :: "js_builtins \<Rightarrow> jsval \<Rightarrow> string" where
  "String_js js JUndefined = ''undefined''"
| "String_js js JNull = ''null''"
| "String_js js (JBool b) = (if b then ''true'' else ''false'')"
| "String_js js (JNum n) = Number_toString js n"
| "String_js js (JStr s) = s"

text \<open>\<^verbatim>\<open>Number(v)\<close> and \<^verbatim>\<open>isNaN(n)\<close>\<close>

fun Number_js :: "js_builtins \<Rightarrow> jsval \<Rightarrow> jsnumber" where
  "Number_js js JUndefined = NaN"
| "Number_js js JNull = Finite 0"
| "Number_js js (JBool b) = (if b then Finite 1 else Finite 0)"
| "Number_js js (JNum n) = n"
| "Number_js js (JStr s) = StringToNumber js s"

definition isNaN :: "jsnumber \<Rightarrow> bool" where
  "isNaN n = (n = NaN)"

subsection \<open>Strings\<close>

text \<open>
  A string is a list of 8-bit code units, read as Latin-1.  On these,
  \<^verbatim>\<open>toLowerCase\<close> moves \<^verbatim>\<open>A-Z\<close> and the accented capitals
  \<^verbatim>\<open>0xC0-0xDE\<close> (without the multiplication sign \<^verbatim>\<open>0xD7\<close>) up by 32, and
  \<^verbatim>\<open>trim\<close> removes the white space and line terminators of the language at both
  ends: tab, line feed, vertical tab, form feed, carriage return, space and no-break
  space.
\<close>

definition lower_char :: "char \<Rightarrow> char" where
  "lower_char c =
     (let n = (of_char c :: nat)
      in if (65 \<le> n \<and> n \<le> 90) \<or> (192 \<le> n \<and> n \<le> 222 \<and> n \<noteq> 215)
         then char_of (n + 32) else c)"

definition toLowerCase :: "string \<Rightarrow> string" where
  "toLowerCase s = map lower_char s"

definition is_space :: "char \<Rightarrow> bool" where
  "is_space c = ((of_char c :: nat) \<in> {9, 10, 11, 12, 13, 32, 160})"

definition trim :: "string \<Rightarrow> string" where
  "trim s = rev (dropWhile is_space (rev (dropWhile is_space s)))"

section \<open>Compliance extraction\<close>

datatype ComplianceStatus = COMPLIANT | NON_COMPLIANT | UNKNOWN

record RawComplianceData =
  raw_no_of_staff_rfb :: jsval
  raw_cesmps_submitted :: jsval
  raw_ohs_measures :: jsval

record PackageCompliance =
  no_of_staff_rfb :: jsval
  cesmps_submitted :: jsval
  ohs_measures :: jsval
  status :: ComplianceStatus
  issues :: "string list"

text \<open>
  The inner helper \<^verbatim>\<open>parseYesNo\<close> of \<^verbatim>\<open>parseComplianceData\<close>.  Its result type
  \<^verbatim>\<open>'Yes' | 'No' | null\<close> is kept as the values \<open>JStr ''Yes''\<close>, \<open>JStr ''No''\<close>
  and \<open>JNull\<close>.
\<close>

definition parseYesNo :: "js_builtins \<Rightarrow> jsval \<Rightarrow> jsval" where
  "parseYesNo js val =
     (if \<not> truthy val \<and> val \<noteq> JNum (Finite 0) then JNull
      else let normalized = trim (toLowerCase (String_js js val))
           in if normalized = ''yes'' then JStr ''Yes''
              else if normalized = ''no'' then JStr ''No''
              else JNull)"

definition parseComplianceData :: "js_builtins \<Rightarrow> RawComplianceData option \<Rightarrow> PackageCompliance" where
  "parseComplianceData js raw =
     (case raw of
        None \<Rightarrow>
          \<lparr>no_of_staff_rfb = JNull, cesmps_submitted = JNull, ohs_measures = JNull,
           status = UNKNOWN, issues = [''Compliance data not available'']\<rparr>
      | Some r \<Rightarrow>
          (let staffRfb = parseYesNo js (raw_no_of_staff_rfb r);
               cesmps = parseYesNo js (raw_cesmps_submitted r);
               ohs = parseYesNo js (raw_ohs_measures r);
               allBlank = (staffRfb = JNull \<and> cesmps = JNull \<and> ohs = JNull)
           in if allBlank then
                \<lparr>no_of_staff_rfb = staffRfb, cesmps_submitted = cesmps, ohs_measures = ohs,
                 status = UNKNOWN, issues = [''All compliance fields are blank'']\<rparr>
              else
                (let issues1 =
                       (if staffRfb \<noteq> JStr ''Yes''
                        then [if staffRfb = JNull then ''Staff RFB status unknown''
                              else ''Staff RFB not submitted'']
                        else []);
                     issues2 = issues1 @
                       (if cesmps \<noteq> JStr ''Yes''
                        then [if cesmps = JNull then ''CESMPS submission status unknown''
                              else ''CESMPS not submitted'']
                        else []);
                     issues3 = issues2 @
                       (if ohs \<noteq> JStr ''Yes''
                        then [if ohs = JNull then ''OHS measures status unknown''
                              else ''OHS measures not in place'']
                        else [])
                 in \<lparr>no_of_staff_rfb = staffRfb, cesmps_submitted = cesmps, ohs_measures = ohs,
                     status = (if length issues3 = 0 then COMPLIANT else NON_COMPLIANT),
                     issues = issues3\<rparr>)))"

section \<open>Workbooks and the network\<close>

text \<open>
  A worksheet is the object the spreadsheet library returns: a sparse grid of cells keyed
  by their A1 address.  Of a cell only its value \<^verbatim>\<open>v\<close> is read.  A row is the
  object \<^verbatim>\<open>sheet_to_json\<close> makes of a worksheet line, keyed by header name; a key
  the object does not have reads as \<open>JUndefined\<close>.
\<close>

record cell =
  cell_v :: jsval

type_synonym WorkSheet = "string \<Rightarrow> cell option"

type_synonym SheetRow = "string \<Rightarrow> jsval"

record WorkBook =
  SheetNames :: "string list"
  Sheets :: "string \<Rightarrow> WorkSheet option"

record Source =
  packageId :: string
  packageName :: string
  publishedXlsxUrl :: string

record 'b Response =
  ok :: bool
  statusText :: string
  arrayBuffer :: 'b

datatype error = NetworkError | DecodeError | Error string

text \<open>
  What lies outside the repository: the network and the spreadsheet library
  (\<^verbatim>\<open>xlsx\<close>).  \<open>fetch\<close> gives no response when the request fails on the
  network (the promise rejects); \<open>XLSX_read\<close> gives no workbook when the payload
  cannot be decoded (it throws), and takes the \<^verbatim>\<open>cellDates\<close> option;
  \<open>sheet_to_json\<close> is called with \<^verbatim>\<open>{raw: false, defval: null}\<close> and returns
  no rows for an undefined worksheet; \<open>encode_cell r c\<close> is the address of row index
  \<open>r\<close>, column index \<open>c\<close>.
\<close>

record 'b env =
  fetch :: "string \<Rightarrow> 'b Response option"
  XLSX_read :: "bool \<Rightarrow> 'b \<Rightarrow> WorkBook option"
  sheet_to_json :: "WorkSheet option \<Rightarrow> SheetRow list"
  encode_cell :: "nat \<Rightarrow> nat \<Rightarrow> string"

text \<open>
  The first lines of all three fetch functions are the same: request the export, refuse
  a response that is not ok, read the body and decode it.
\<close>

definition fetch_workbook :: "'b env \<Rightarrow> bool \<Rightarrow> Source \<Rightarrow> error + WorkBook" where
  "fetch_workbook E cellDates source =
     (case fetch E (publishedXlsxUrl source) of
        None \<Rightarrow> Inl NetworkError
      | Some response \<Rightarrow>
          if \<not> ok response then Inl (Error (''Failed to fetch XLSX: '' @ statusText response))
          else (case XLSX_read E cellDates (arrayBuffer response) of
                  None \<Rightarrow> Inl DecodeError
                | Some workbook \<Rightarrow> Inr workbook))"

text \<open>
  \<^verbatim>\<open>let sheetName = 'Data_Entry'; if (!workbook.SheetNames.includes(sheetName))
  sheetName = workbook.SheetNames[0];\<close> as \<^verbatim>\<open>fetchAllComplianceData\<close> and
  \<^verbatim>\<open>fetchAllSheets\<close> both have it.  In a workbook with no sheet the name is
  \<^verbatim>\<open>undefined\<close>, which \<^verbatim>\<open>workbook.Sheets[sheetName]\<close> reads as the key
  \<^verbatim>\<open>"undefined"\<close>.
\<close>

definition sheetName_of :: "WorkBook \<Rightarrow> string" where
  "sheetName_of workbook =
     (if ''Data_Entry'' \<in> set (SheetNames workbook) then ''Data_Entry''
      else (case SheetNames workbook of [] \<Rightarrow> ''undefined'' | first # _ \<Rightarrow> first))"

section \<open>IPC extraction\<close>

text \<open>
  A value read from the object literal \<^verbatim>\<open>statusMap\<close>, and so a value of the
  \<^verbatim>\<open>status\<close> field of an IPC record.  \<^verbatim>\<open>statusMap[key]\<close> is a property read:
  a key the literal does not have is looked up in \<^verbatim>\<open>Object.prototype\<close>, whose
  properties are functions (and, under \<^verbatim>\<open>__proto__\<close>, the prototype object).
  \<open>SObject k\<close> is that inherited value.
\<close>

datatype js_status = SUndefined | SNull | SStr string | SObject string

fun status_truthy :: "js_status \<Rightarrow> bool" where
  "status_truthy SUndefined = False"
| "status_truthy SNull = False"
| "status_truthy (SStr s) = (s \<noteq> [])"
| "status_truthy (SObject k) = True"

definition Object_prototype_keys :: "string list" where
  "Object_prototype_keys =
     [''constructor'', ''__defineGetter__'', ''__defineSetter__'', ''hasOwnProperty'',
      ''__lookupGetter__'', ''__lookupSetter__'', ''isPrototypeOf'',
      ''propertyIsEnumerable'', ''toString'', ''valueOf'', ''__proto__'',
      ''toLocaleString'']"

definition statusMap :: "string \<Rightarrow> js_status" where
  "statusMap key =
     (if key = ''not submitted'' then SStr ''not submitted''
      else if key = ''submitted'' then SStr ''submitted''
      else if key = ''in process'' then SStr ''in process''
      else if key = ''released'' then SStr ''released''
      else if key \<in> set Object_prototype_keys then SObject key
      else SUndefined)"

record IPCRecord =
  ipcNumber :: string
  ipcStatus :: js_status

record IPCData =
  records :: "IPCRecord list"

definition ipcLabels :: "string list" where
  "ipcLabels = [''IPC 1'', ''IPC 2'', ''IPC 3'', ''IPC 4'', ''IPC 5'', ''IPC 6'']"

text \<open>The body of the loop of \<^verbatim>\<open>parseIPCData\<close> for one column.\<close>

definition ipc_record :: "js_builtins \<Rightarrow> 'b env \<Rightarrow> WorkSheet \<Rightarrow> nat \<Rightarrow> IPCRecord" where
  "ipc_record js E sheet col =
     (let statusCell = encode_cell E 1 col;
          cellValue = sheet statusCell;
          statusRaw =
            (case cellValue of
               None \<Rightarrow> None
             | Some c \<Rightarrow>
                 if truthy (cell_v c) then Some (trim (toLowerCase (String_js js (cell_v c))))
                 else None);
          st =
            (case statusRaw of
               None \<Rightarrow> SNull
             | Some raw \<Rightarrow>
                 if raw \<noteq> [] \<and> status_truthy (statusMap raw) then statusMap raw else SNull)
      in \<lparr>ipcNumber = ipcLabels ! (col - 24), ipcStatus = st\<rparr>)"

text \<open>\<^verbatim>\<open>for (let col = 24; col <= 29; col++) { ...; records.push(...) }\<close>\<close>

function ipc_loop ::
  "js_builtins \<Rightarrow> 'b env \<Rightarrow> WorkSheet \<Rightarrow> nat \<Rightarrow> IPCRecord list \<Rightarrow> IPCRecord list" where
  "ipc_loop js E sheet col recs =
     (if col \<le> 29 then ipc_loop js E sheet (col + 1) (recs @ [ipc_record js E sheet col])
      else recs)"
  by pat_completeness auto
termination
  by (relation "measure (\<lambda>(js, E, sheet, col, recs). 30 - col)") auto

definition parseIPCData :: "js_builtins \<Rightarrow> 'b env \<Rightarrow> WorkSheet \<Rightarrow> IPCData" where
  "parseIPCData js E sheet = \<lparr>records = ipc_loop js E sheet 24 []\<rparr>"

text \<open>
  \<^verbatim>\<open>fetchAllIPCData\<close>: the body of its \<^verbatim>\<open>try\<close>, where a failure is a value,
  and the function with its \<^verbatim>\<open>catch\<close>.  \<open>SHEET_SOURCES\<close> and \<open>tabName\<close> are
  the constants of the configuration module, which the functions take as arguments here.
\<close>

definition fetchAllIPCData_try ::
  "js_builtins \<Rightarrow> 'b env \<Rightarrow> string \<Rightarrow> Source list \<Rightarrow> error + IPCData" where
  "fetchAllIPCData_try js E tabName SHEET_SOURCES =
     (case SHEET_SOURCES of
        [] \<Rightarrow> Inr \<lparr>records = []\<rparr>
      | source # _ \<Rightarrow>
          (case fetch_workbook E False source of
             Inl e \<Rightarrow> Inl e
           | Inr workbook \<Rightarrow>
               (case Sheets workbook tabName of
                  None \<Rightarrow> Inl (Error (''Sheet '' @ [CHR 0x22] @ tabName @ [CHR 0x22] @ '' not found''))
                | Some sheet \<Rightarrow> Inr (parseIPCData js E sheet))))"

definition fetchAllIPCData ::
  "js_builtins \<Rightarrow> 'b env \<Rightarrow> string \<Rightarrow> Source list \<Rightarrow> IPCData" where
  "fetchAllIPCData js E tabName SHEET_SOURCES =
     (case fetchAllIPCData_try js E tabName SHEET_SOURCES of
        Inl e \<Rightarrow> \<lparr>records = []\<rparr>
      | Inr ipcData \<Rightarrow> ipcData)"

section \<open>Task rows of all sources\<close>

text \<open>
  The callback \<^verbatim>\<open>fetchAllSheets\<close> maps over \<^verbatim>\<open>SHEET_SOURCES\<close>.  Its
  \<^verbatim>\<open>catch\<close> logs and throws the error again, so a failure is a rejected promise.
\<close>

definition fetchSheet ::
  "'b env \<Rightarrow> Source \<Rightarrow> error + (string \<times> SheetRow list)" where
  "fetchSheet E source =
     (case fetch_workbook E True source of
        Inl e \<Rightarrow> Inl e
      | Inr workbook \<Rightarrow>
          (let sheetName = sheetName_of workbook;
               worksheet = Sheets workbook sheetName;
               jsonData = sheet_to_json E worksheet
           in Inr (packageId source, jsonData)))"

text \<open>
  \<^verbatim>\<open>Promise.allSettled\<close> gives one settled result for each source, in the order of
  \<^verbatim>\<open>SHEET_SOURCES\<close> whatever the order of completion: \<open>Inr\<close> a fulfilled one,
  \<open>Inl\<close> a rejected one.  \<^verbatim>\<open>results.forEach((result, index) => ...)\<close> then fills
  the map.
\<close>

fun forEach_sheets ::
  "(error + (string \<times> SheetRow list)) list \<Rightarrow> nat \<Rightarrow> Source list \<Rightarrow>
   (string \<rightharpoonup> SheetRow list) \<Rightarrow> (string \<rightharpoonup> SheetRow list)" where
  "forEach_sheets [] index SHEET_SOURCES dataMap = dataMap"
| "forEach_sheets (result # rest) index SHEET_SOURCES dataMap =
     forEach_sheets rest (Suc index) SHEET_SOURCES
       (let source = SHEET_SOURCES ! index
        in case result of
             Inr (pid, rows) \<Rightarrow> dataMap(pid \<mapsto> rows)
           | Inl reason \<Rightarrow> dataMap(packageId source \<mapsto> []))"

definition fetchAllSheets :: "'b env \<Rightarrow> Source list \<Rightarrow> (string \<rightharpoonup> SheetRow list)" where
  "fetchAllSheets E SHEET_SOURCES =
     (let results = map (fetchSheet E) SHEET_SOURCES
      in forEach_sheets results 0 SHEET_SOURCES Map.empty)"

section \<open>Compliance of all sources\<close>

definition staffRfbNames :: "string list" where
  "staffRfbNames = [''No_of_Staff_RFB'', ''No of Staff RFB'', ''Staff RFB'', ''No_of_Staff_RFB'']"

definition cesmpNames :: "string list" where
  "cesmpNames = [''CESMPS_Submitted'', ''CESMPS_Submitte'', ''CEMSPS_Submitted'', ''CESMPS'']"

definition ohsNames :: "string list" where
  "ohsNames = [''OHS_Measures'', ''OHS Measures'', ''OHS'', ''OHS_Measures'']"

text \<open>
  \<^verbatim>\<open>let value = null; for (const colName of names) { if (colName in row &&
  row[colName] !== null && row[colName] !== undefined && row[colName] !== '')
  { value = row[colName]; break; } }\<close>, the loop written three times in
  \<^verbatim>\<open>fetchAllComplianceData\<close>.  A key that is not in the row reads as
  \<^verbatim>\<open>undefined\<close>, so the test \<^verbatim>\<open>colName in row\<close> adds nothing to the other three.
\<close>

fun search_column :: "SheetRow \<Rightarrow> string list \<Rightarrow> jsval" where
  "search_column row [] = JNull"
| "search_column row (colName # rest) =
     (if row colName \<noteq> JNull \<and> row colName \<noteq> JUndefined \<and> row colName \<noteq> JStr []
      then row colName
      else search_column row rest)"

text \<open>\<^verbatim>\<open>value?.toString() ?? null\<close>\<close>

definition toString_or_null :: "js_builtins \<Rightarrow> jsval \<Rightarrow> jsval" where
  "toString_or_null js val =
     (if val = JNull \<or> val = JUndefined then JNull else JStr (String_js js val))"

text \<open>
  The callback \<^verbatim>\<open>fetchAllComplianceData\<close> maps over \<^verbatim>\<open>SHEET_SOURCES\<close>: first
  the body of its \<^verbatim>\<open>try\<close>, then the callback with its \<^verbatim>\<open>catch\<close>, which returns
  the record of \<^verbatim>\<open>parseComplianceData(null)\<close>.
\<close>

definition fetchCompliance_try ::
  "js_builtins \<Rightarrow> 'b env \<Rightarrow> Source \<Rightarrow> error + (string \<times> PackageCompliance)" where
  "fetchCompliance_try js E source =
     (case fetch_workbook E True source of
        Inl e \<Rightarrow> Inl e
      | Inr workbook \<Rightarrow>
          (let sheetName = sheetName_of workbook;
               worksheet = Sheets workbook sheetName;
               jsonRows = sheet_to_json E worksheet
           in case jsonRows of
                row # _ \<Rightarrow>
                  (let staffValue = search_column row staffRfbNames;
                       cesmpsValue = search_column row cesmpNames;
                       ohsValue = search_column row ohsNames;
                       rawData = \<lparr>raw_no_of_staff_rfb = staffValue,
                                  raw_cesmps_submitted = toString_or_null js cesmpsValue,
                                  raw_ohs_measures = toString_or_null js ohsValue\<rparr>
                   in Inr (packageId source, parseComplianceData js (Some rawData)))
              | [] \<Rightarrow> Inr (packageId source, parseComplianceData js None)))"

definition fetchCompliance ::
  "js_builtins \<Rightarrow> 'b env \<Rightarrow> Source \<Rightarrow> string \<times> PackageCompliance" where
  "fetchCompliance js E source =
     (case fetchCompliance_try js E source of
        Inl e \<Rightarrow> (packageId source, parseComplianceData js None)
      | Inr r \<Rightarrow> r)"

text \<open>
  Every promise of the callback is fulfilled, and
  \<^verbatim>\<open>results.forEach(...)\<close> sets the entry of each in the order of the sources.
\<close>

fun forEach_compliance ::
  "(string \<times> PackageCompliance) list \<Rightarrow> (string \<rightharpoonup> PackageCompliance) \<Rightarrow>
   (string \<rightharpoonup> PackageCompliance)" where
  "forEach_compliance [] complianceMap = complianceMap"
| "forEach_compliance ((pid, compliance) # rest) complianceMap =
     forEach_compliance rest (complianceMap(pid \<mapsto> compliance))"

definition fetchAllComplianceData ::
  "js_builtins \<Rightarrow> 'b env \<Rightarrow> Source list \<Rightarrow> (string \<rightharpoonup> PackageCompliance)" where
  "fetchAllComplianceData js E SHEET_SOURCES =
     (let results = map (fetchCompliance js E) SHEET_SOURCES
      in forEach_compliance results Map.empty)"

section \<open>Mapping a row to a task\<close>

record 'd Task =
  package_id :: string
  package_name :: string
  district :: string
  site_id :: string
  site_name :: string
  discipline :: string
  task_name :: string
  planned_start :: "'d option"
  planned_finish :: "'d option"
  planned_duration_days :: "jsnumber option"
  actual_start :: "'d option"
  actual_finish :: "'d option"
  progress_pct :: "jsnumber option"
  Variance :: "jsnumber option"
  delay_flag_calc :: string
  last_updated :: "'d option"
  remarks :: string
  photo_folder_url :: string
  cover_photo_share_url :: string
  before_photo_share_url :: string
  after_photo_share_url :: string
  cover_photo_direct_url :: "string option"
  before_photo_direct_url :: "string option"
  after_photo_direct_url :: "string option"

text \<open>The two inner helpers of \<^verbatim>\<open>mapRowToTask\<close>.\<close>

definition getValue :: "js_builtins \<Rightarrow> SheetRow \<Rightarrow> string \<Rightarrow> string \<Rightarrow> string" where
  "getValue js row key1 key2 =
     (let val = js_or (row key1) (row key2)
      in if truthy val then trim (String_js js val) else [])"

definition getNumber :: "js_builtins \<Rightarrow> SheetRow \<Rightarrow> string \<Rightarrow> string \<Rightarrow> jsnumber option" where
  "getNumber js row key1 key2 =
     (let val = js_or (row key1) (row key2)
      in if val = JNull \<or> val = JUndefined \<or> val = JStr [] then None
         else (let num = Number_js js val
               in if isNaN num then None else Some num))"

text \<open>
  \<^verbatim>\<open>parseDMY\<close> is imported from \<^verbatim>\<open>../dataParser\<close>, a module that is not among
  the sources; it is an argument here, and may raise.  \<open>mapRowToTask_try\<close> is the body
  of the \<^verbatim>\<open>try\<close> of \<^verbatim>\<open>mapRowToTask\<close>: the fields of the object are evaluated in
  the order they are written, and the first date that raises ends the evaluation.
  \<open>mapRowToTask\<close> adds the \<^verbatim>\<open>catch\<close>, which returns \<^verbatim>\<open>null\<close>.
\<close>

definition mapRowToTask_try ::
  "js_builtins \<Rightarrow> (string \<Rightarrow> error + 'd option) \<Rightarrow> SheetRow \<Rightarrow> string \<Rightarrow> string \<Rightarrow>
   error + 'd Task option" where
  "mapRowToTask_try js parseDMY row pid pname =
     (if \<not> truthy (row ''Site ID'') \<and> \<not> truthy (row ''site_id'') then Inr None
      else
        (case parseDMY (getValue js row ''Planned Start'' ''planned_start'') of
          Inl e \<Rightarrow> Inl e
        | Inr d1 \<Rightarrow>
        (case parseDMY (getValue js row ''Planned Finish'' ''planned_finish'') of
          Inl e \<Rightarrow> Inl e
        | Inr d2 \<Rightarrow>
        (case parseDMY (getValue js row ''Actual Start'' ''actual_start'') of
          Inl e \<Rightarrow> Inl e
        | Inr d3 \<Rightarrow>
        (case parseDMY (getValue js row ''Actual Finish'' ''actual_finish'') of
          Inl e \<Rightarrow> Inl e
        | Inr d4 \<Rightarrow>
        (case parseDMY (getValue js row ''Last Updated'' ''last_updated'') of
          Inl e \<Rightarrow> Inl e
        | Inr d5 \<Rightarrow>
            Inr (Some
              \<lparr>package_id = pid,
               package_name = pname,
               district = getValue js row ''District'' ''district'',
               site_id = getValue js row ''Site ID'' ''site_id'',
               site_name = getValue js row ''Site Name'' ''site_name'',
               discipline = getValue js row ''Discipline'' ''discipline'',
               task_name = getValue js row ''Task Name'' ''task_name'',
               planned_start = d1,
               planned_finish = d2,
               planned_duration_days =
                 getNumber js row ''Planned Duration (Days)'' ''planned_duration_days'',
               actual_start = d3,
               actual_finish = d4,
               progress_pct = getNumber js row ''Progress %'' ''progress_pct'',
               Variance = getNumber js row ''Variance'' ''Variance'',
               delay_flag_calc = getValue js row ''Delay Flag'' ''delay_flag_calc'',
               last_updated = d5,
               remarks = getValue js row ''Remarks'' ''remarks'',
               photo_folder_url = getValue js row ''Photo Folder'' ''photo_folder_url'',
               cover_photo_share_url = getValue js row ''Cover Photo'' ''cover_photo_share_url'',
               before_photo_share_url = getValue js row ''Before Photo'' ''before_photo_share_url'',
               after_photo_share_url = getValue js row ''After Photo'' ''after_photo_share_url'',
               cover_photo_direct_url = None,
               before_photo_direct_url = None,
               after_photo_direct_url = None\<rparr>)))))))"

definition mapRowToTask ::
  "js_builtins \<Rightarrow> (string \<Rightarrow> error + 'd option) \<Rightarrow> SheetRow \<Rightarrow> string \<Rightarrow> string \<Rightarrow>
   'd Task option" where
  "mapRowToTask js parseDMY row pid pname =
     (case mapRowToTask_try js parseDMY row pid pname of
        Inl e \<Rightarrow> None
      | Inr task \<Rightarrow> task)"

section \<open>The claims in the words of the specification\<close>

text \<open>
  The entry of the issue list for one compliance field: none for \<^verbatim>\<open>Yes\<close>, the
  field's "unknown" text for the unknown value, its "not submitted / not in place" text
  otherwise.
\<close>

definition field_issue :: "string \<Rightarrow> string \<Rightarrow> jsval \<Rightarrow> string list" where
  "field_issue unknown_text no_text val =
     (if val = JStr ''Yes'' then [] else if val = JNull then [unknown_text] else [no_text])"

text \<open>
  The normalizer as the specification words it: convert to string, trim, lowercase;
  \<^verbatim>\<open>yes\<close> gives Yes, \<^verbatim>\<open>no\<close> gives No, anything else the unknown value.
\<close>

definition normalize_claimed :: "js_builtins \<Rightarrow> jsval \<Rightarrow> jsval" where
  "normalize_claimed js val =
     (let s = toLowerCase (trim (String_js js val))
      in if s = ''yes'' then JStr ''Yes'' else if s = ''no'' then JStr ''No'' else JNull)"

text \<open>A cell is absent or empty: it is not there, it is \<^verbatim>\<open>null\<close>, or it is the empty string.\<close>

definition absent_or_empty :: "jsval \<Rightarrow> bool" where
  "absent_or_empty val = (val = JUndefined \<or> val = JNull \<or> val = JStr [])"

text \<open>The first of a list of header names under which the row has a present, non-empty value.\<close>

definition first_present :: "SheetRow \<Rightarrow> string list \<Rightarrow> string option" where
  "first_present row names = find (\<lambda>name. \<not> absent_or_empty (row name)) names"

text \<open>The value of a task field under its two spellings: the first that is not empty wins.\<close>

definition first_non_empty :: "SheetRow \<Rightarrow> string \<Rightarrow> string \<Rightarrow> jsval option" where
  "first_non_empty row key1 key2 =
     (if \<not> absent_or_empty (row key1) then Some (row key1)
      else if \<not> absent_or_empty (row key2) then Some (row key2)
      else None)"

text \<open>The same with the test the code makes: the first that is truthy wins.\<close>

definition first_truthy :: "SheetRow \<Rightarrow> string \<Rightarrow> string \<Rightarrow> jsval option" where
  "first_truthy row key1 key2 =
     (if truthy (row key1) then Some (row key1)
      else if truthy (row key2) then Some (row key2)
      else None)"

text \<open>
  A task field as the specification words it, on the first spelling that is not empty:
  a string field is that value as a trimmed string, or the empty string; a numeric field
  is that value as a number, or nothing when there is no value or it is not a number.
  \<open>is_text_cell\<close> holds of the cells that \<^verbatim>\<open>sheet_to_json\<close> makes with
  \<^verbatim>\<open>raw: false\<close>: strings, \<^verbatim>\<open>null\<close>, and the absent ones.
\<close>

definition string_field_claimed :: "js_builtins \<Rightarrow> SheetRow \<Rightarrow> string \<Rightarrow> string \<Rightarrow> string" where
  "string_field_claimed js row key1 key2 =
     (case first_non_empty row key1 key2 of None \<Rightarrow> [] | Some val \<Rightarrow> trim (String_js js val))"

definition number_field_claimed ::
  "js_builtins \<Rightarrow> SheetRow \<Rightarrow> string \<Rightarrow> string \<Rightarrow> jsnumber option" where
  "number_field_claimed js row key1 key2 =
     (case first_non_empty row key1 key2 of
        None \<Rightarrow> None
      | Some val \<Rightarrow> if isNaN (Number_js js val) then None else Some (Number_js js val))"

definition is_text_cell :: "jsval \<Rightarrow> bool" where
  "is_text_cell val = (case val of JNum n \<Rightarrow> False | JBool b \<Rightarrow> False | _ \<Rightarrow> True)"

text \<open>The worksheet a fetch path would read if it fell back to the first worksheet.\<close>

definition preferred_or_first :: "WorkBook \<Rightarrow> string \<Rightarrow> WorkSheet option" where
  "preferred_or_first workbook name =
     (if name \<in> set (SheetNames workbook) then Sheets workbook name
      else (case SheetNames workbook of [] \<Rightarrow> None | first # _ \<Rightarrow> Sheets workbook first))"

text \<open>
  The status of one IPC cell: nothing for a cell that is absent or holds a falsy value;
  else, of its value as a string, lowercased and trimmed, the word itself when it belongs
  to the closed vocabulary, and nothing when it does not, but for the two lowercase words
  that name a property every object inherits.
\<close>

definition ipc_cell_status :: "js_builtins \<Rightarrow> cell option \<Rightarrow> js_status" where
  "ipc_cell_status js cellValue =
     (case cellValue of
        None \<Rightarrow> SNull
      | Some c \<Rightarrow>
          if \<not> truthy (cell_v c) then SNull
          else (let raw = trim (toLowerCase (String_js js (cell_v c)))
                in if raw \<in> {''not submitted'', ''submitted'', ''in process'', ''released''}
                   then SStr raw
                   else if raw \<in> {''constructor'', ''__proto__''} then SObject raw
                   else SNull))"

text \<open>
  The compliance extractor on the rows of a worksheet: of the first row, for each field the
  value under the first header name of its list that is present and not empty; the
  record of an absent input when there is no row.
\<close>

definition first_value :: "SheetRow \<Rightarrow> string list \<Rightarrow> jsval" where
  "first_value row names =
     (case first_present row names of None \<Rightarrow> JNull | Some name \<Rightarrow> row name)"

definition extract_compliance :: "js_builtins \<Rightarrow> SheetRow list \<Rightarrow> PackageCompliance" where
  "extract_compliance js rows =
     (case rows of
        [] \<Rightarrow> parseComplianceData js None
      | row # _ \<Rightarrow>
          parseComplianceData js
            (Some \<lparr>raw_no_of_staff_rfb = first_value row staffRfbNames,
                   raw_cesmps_submitted = toString_or_null js (first_value row cesmpNames),
                   raw_ohs_measures = toString_or_null js (first_value row ohsNames)\<rparr>))"

text \<open>
  What one source gives to the map of task rows: the rows of its worksheet, and no row
  when its fetch fails.  \<open>set_entry k v s\<close> sets the entry of \<open>s\<close> in a map.
\<close>

definition sheet_rows :: "'b env \<Rightarrow> Source \<Rightarrow> SheetRow list" where
  "sheet_rows E source = (case fetchSheet E source of Inl e \<Rightarrow> [] | Inr (pid, rows) \<Rightarrow> rows)"

definition set_entry ::
  "('s \<Rightarrow> 'k) \<Rightarrow> ('s \<Rightarrow> 'v) \<Rightarrow> 's \<Rightarrow> ('k \<rightharpoonup> 'v) \<Rightarrow> ('k \<rightharpoonup> 'v)" where
  "set_entry k v s m = m(k s \<mapsto> v s)"

section \<open>Inputs for the examples\<close>

text \<open>
  An instance of the two number built-ins that is right on the natural numbers (it prints
  them in decimal and reads a string of decimal digits), a date reader for
  \<^verbatim>\<open>dd/mm/yyyy\<close> that never raises, and the spreadsheet library on worksheets with
  a header line and one line of data, of which \<^verbatim>\<open>sheet_to_json\<close> reads the columns
  A, B, V, W and X (an empty cell gives \<^verbatim>\<open>null\<close>, the default value asked for).
\<close>

fun show_nat :: "nat \<Rightarrow> string" where
  "show_nat n =
     (if n < 10 then [char_of (48 + n)] else show_nat (n div 10) @ [char_of (48 + n mod 10)])"

definition is_digit :: "char \<Rightarrow> bool" where
  "is_digit c = (48 \<le> (of_char c :: nat) \<and> (of_char c :: nat) \<le> 57)"

definition read_nat :: "string \<Rightarrow> nat" where
  "read_nat s = foldl (\<lambda>a c. 10 * a + (of_char c - 48)) 0 s"

definition js_example :: js_builtins where
  "js_example =
     \<lparr>Number_toString =
        (\<lambda>n. case n of NaN \<Rightarrow> ''NaN'' | PosInfinity \<Rightarrow> ''Infinity''
              | NegInfinity \<Rightarrow> ''-Infinity'' | Finite r \<Rightarrow> show_nat (nat \<lfloor>r\<rfloor>)),
      StringToNumber =
        (\<lambda>s. if trim s = [] then Finite 0
             else if list_all is_digit (trim s) then Finite (of_nat (read_nat (trim s)))
             else NaN)\<rparr>"

definition parseDMY_example :: "string \<Rightarrow> error + (nat \<times> nat \<times> nat) option" where
  "parseDMY_example s =
     Inr (if length s = 10 \<and> s ! 2 = CHR ''/'' \<and> s ! 5 = CHR ''/''
             \<and> list_all is_digit (take 2 s @ take 2 (drop 3 s) @ drop 6 s)
          then Some (read_nat (take 2 s), read_nat (take 2 (drop 3 s)), read_nat (drop 6 s))
          else None)"

definition encode_col :: "nat \<Rightarrow> string" where
  "encode_col c =
     (if c < 26 then [char_of (65 + c)] else [char_of (64 + c div 26), char_of (65 + c mod 26)])"

definition encode_cell_A1 :: "nat \<Rightarrow> nat \<Rightarrow> string" where
  "encode_cell_A1 r c = encode_col c @ show_nat (r + 1)"

definition header_and_data_cells :: "(string \<times> string) list" where
  "header_and_data_cells =
     [(''A1'', ''A2''), (''B1'', ''B2''), (''V1'', ''V2''), (''W1'', ''W2''), (''X1'', ''X2'')]"

definition sheet_to_json_example :: "WorkSheet option \<Rightarrow> SheetRow list" where
  "sheet_to_json_example worksheet =
     (case worksheet of
        None \<Rightarrow> []
      | Some sh \<Rightarrow>
          if list_ex (\<lambda>(h, d). sh d \<noteq> None) header_and_data_cells
          then [\<lambda>key. case find (\<lambda>(h, d). sh h = Some \<lparr>cell_v = JStr key\<rparr>)
                             header_and_data_cells of
                        None \<Rightarrow> JUndefined
                      | Some (h, d) \<Rightarrow> (case sh d of None \<Rightarrow> JNull | Some cl \<Rightarrow> cell_v cl)]
          else [])"

text \<open>
  A worksheet with one task line, compliance Yes / no / blank, and the six IPC cells of
  the change notes; a second one whose IPC cell Y2 holds the word \<^verbatim>\<open>constructor\<close>;
  a third one whose compliance cells say nothing (the header \<^verbatim>\<open>cesmps\<close> is not one
  of the accepted names) and whose IPC cells are empty.
\<close>

definition sheet_example :: WorkSheet where
  "sheet_example = map_of
     [(''A1'', \<lparr>cell_v = JStr ''Site ID''\<rparr>), (''A2'', \<lparr>cell_v = JStr ''S-001''\<rparr>),
      (''B1'', \<lparr>cell_v = JStr ''Task Name''\<rparr>), (''B2'', \<lparr>cell_v = JStr '' Excavation ''\<rparr>),
      (''V1'', \<lparr>cell_v = JStr ''No_of_Staff_RFB''\<rparr>), (''V2'', \<lparr>cell_v = JStr ''Yes''\<rparr>),
      (''W1'', \<lparr>cell_v = JStr ''CESMPS_Submitted''\<rparr>), (''W2'', \<lparr>cell_v = JStr ''no''\<rparr>),
      (''X1'', \<lparr>cell_v = JStr ''OHS_Measures''\<rparr>),
      (''Y1'', \<lparr>cell_v = JStr ''IPC 1''\<rparr>), (''Y2'', \<lparr>cell_v = JStr ''released''\<rparr>),
      (''Z1'', \<lparr>cell_v = JStr ''IPC 2''\<rparr>), (''Z2'', \<lparr>cell_v = JStr ''in process''\<rparr>),
      (''AA1'', \<lparr>cell_v = JStr ''IPC 3''\<rparr>), (''AA2'', \<lparr>cell_v = JStr ''submitted''\<rparr>),
      (''AB1'', \<lparr>cell_v = JStr ''IPC 4''\<rparr>), (''AB2'', \<lparr>cell_v = JStr ''not submitted''\<rparr>),
      (''AC1'', \<lparr>cell_v = JStr ''IPC 5''\<rparr>),
      (''AD1'', \<lparr>cell_v = JStr ''IPC 6''\<rparr>), (''AD2'', \<lparr>cell_v = JStr ''released''\<rparr>)]"

definition sheet_constructor :: WorkSheet where
  "sheet_constructor = map_of [(''Y2'', \<lparr>cell_v = JStr ''constructor''\<rparr>)]"

definition sheet_blank :: WorkSheet where
  "sheet_blank = map_of
     [(''A1'', \<lparr>cell_v = JStr ''site_id''\<rparr>), (''A2'', \<lparr>cell_v = JStr ''S-003''\<rparr>),
      (''V1'', \<lparr>cell_v = JStr ''Staff RFB''\<rparr>), (''V2'', \<lparr>cell_v = JStr ''n/a''\<rparr>),
      (''W1'', \<lparr>cell_v = JStr ''cesmps''\<rparr>), (''W2'', \<lparr>cell_v = JStr ''Yes''\<rparr>)]"

text \<open>
  Five sources: the first answers with a workbook that has the worksheet
  \<^verbatim>\<open>Data_Entry\<close>, the second with the status 500, the third with a workbook whose
  only worksheet has another name, the fourth with a page that is not a workbook, and the
  request of the fifth fails on the network.
\<close>

definition workbook_example :: WorkBook where
  "workbook_example =
     \<lparr>SheetNames = [''Notes'', ''Data_Entry''],
      Sheets = map_of [(''Notes'', Map.empty), (''Data_Entry'', sheet_example)]\<rparr>"

definition workbook_renamed :: WorkBook where
  "workbook_renamed =
     \<lparr>SheetNames = [''Sheet1''], Sheets = map_of [(''Sheet1'', sheet_blank)]\<rparr>"

definition env_example :: "string env" where
  "env_example =
     \<lparr>fetch =
        (\<lambda>url. if url = ''https://sheets/p1'' then
                  Some \<lparr>ok = True, statusText = ''OK'', arrayBuffer = ''xlsx-1''\<rparr>
                else if url = ''https://sheets/p2'' then
                  Some \<lparr>ok = False, statusText = ''Internal Server Error'', arrayBuffer = []\<rparr>
                else if url = ''https://sheets/p3'' then
                  Some \<lparr>ok = True, statusText = ''OK'', arrayBuffer = ''xlsx-3''\<rparr>
                else if url = ''https://sheets/p4'' then
                  Some \<lparr>ok = True, statusText = ''OK'', arrayBuffer = ''<html>''\<rparr>
                else None),
      XLSX_read =
        (\<lambda>cellDates data. if data = ''xlsx-1'' then Some workbook_example
                          else if data = ''xlsx-3'' then Some workbook_renamed
                          else None),
      sheet_to_json = sheet_to_json_example,
      encode_cell = encode_cell_A1\<rparr>"

definition source1 :: Source where
  "source1 = \<lparr>packageId = ''P1'', packageName = ''Package 1'', publishedXlsxUrl = ''https://sheets/p1''\<rparr>"

definition source2 :: Source where
  "source2 = \<lparr>packageId = ''P2'', packageName = ''Package 2'', publishedXlsxUrl = ''https://sheets/p2''\<rparr>"

definition source3 :: Source where
  "source3 = \<lparr>packageId = ''P3'', packageName = ''Package 3'', publishedXlsxUrl = ''https://sheets/p3''\<rparr>"

definition source4 :: Source where
  "source4 = \<lparr>packageId = ''P4'', packageName = ''Package 4'', publishedXlsxUrl = ''https://sheets/p4''\<rparr>"

definition source5 :: Source where
  "source5 = \<lparr>packageId = ''P5'', packageName = ''Package 5'', publishedXlsxUrl = ''https://sheets/p5''\<rparr>"

text \<open>A sixth source, which carries the package of the first and answers as the second.\<close>

definition source_dup :: Source where
  "source_dup = \<lparr>packageId = ''P1'', packageName = ''Package 1 bis'', publishedXlsxUrl = ''https://sheets/p2''\<rparr>"

definition row_example :: SheetRow where
  "row_example =
     (\<lambda>key. JUndefined)(''Site ID'' := JStr ''S-001'', ''task_name'' := JStr '' Excavation '',
        ''Progress %'' := JNum (Finite 40), ''Planned Start'' := JStr ''01/02/2025'',
        ''Remarks'' := JNull, ''remarks'' := JStr ''on track'')"

definition row_priority :: SheetRow where
  "row_priority =
     (\<lambda>key. JUndefined)(''No_of_Staff_RFB'' := JStr [], ''Staff RFB'' := JStr ''no'',
        ''No of Staff RFB'' := JStr ''yes'', ''ohs_measures'' := JStr ''yes'',
        ''OHS'' := JNum (Finite 0))"

definition row_zero_site :: SheetRow where
  "row_zero_site = (\<lambda>key. JUndefined)(''Site ID'' := JNum (Finite 0), ''Task Name'' := JStr ''Survey'')"

definition row_zero_progress :: SheetRow where
  "row_zero_progress =
     (\<lambda>key. JUndefined)(''Site ID'' := JStr ''S-002'', ''Progress %'' := JNum (Finite 0))"

definition row_zero_second :: SheetRow where
  "row_zero_second =
     (\<lambda>key. JUndefined)(''Site ID'' := JStr ''S-002'', ''progress_pct'' := JNum (Finite 0))"

definition row_zero_variance :: SheetRow where
  "row_zero_variance =
     (\<lambda>key. JUndefined)(''Site ID'' := JStr ''S-002'', ''Variance'' := JNum (Finite 0))"

section \<open>Evaluation of strings\<close>

declare show_nat.simps [simp del]

lemmas string_eval = trim_def toLowerCase_def lower_char_def is_space_def char_of_eq_iff

lemma parseYesNo_range: "parseYesNo js val \<in> {JStr ''Yes'', JStr ''No'', JNull}"
  by (simp add: parseYesNo_def Let_def)

lemma parseYesNo_Yes: "parseYesNo js (JStr ''Yes'') = JStr ''Yes''"
  by (simp add: parseYesNo_def string_eval)

lemma parseYesNo_No: "parseYesNo js (JStr ''No'') = JStr ''No''"
  by (simp add: parseYesNo_def string_eval)

lemma parseYesNo_Null: "parseYesNo js JNull = JNull"
  by (simp add: parseYesNo_def)

text \<open>
  Lowercasing moves no character into or out of the white space, so trimming and
  lowercasing can be done in either order.
\<close>

lemma is_space_lower_char: "is_space (lower_char c) = is_space c"
  by (auto simp add: is_space_def lower_char_def Let_def)

lemma dropWhile_space_lower:
  "dropWhile is_space (map lower_char s) = map lower_char (dropWhile is_space s)"
  by (induction s) (simp_all add: is_space_lower_char)

lemma trim_toLowerCase: "trim (toLowerCase s) = toLowerCase (trim s)"
proof -
  have "trim (map lower_char s) =
      rev (dropWhile is_space (map lower_char (rev (dropWhile is_space s))))"
    by (simp only: trim_def dropWhile_space_lower rev_map)
  also have "\<dots> = map lower_char (rev (dropWhile is_space (rev (dropWhile is_space s))))"
    by (simp only: dropWhile_space_lower rev_map)
  finally show ?thesis by (simp only: toLowerCase_def trim_def)
qed

lemma parseYesNo_normalize:
  "parseYesNo js val = (if val = JNum NaN then JNull else normalize_claimed js val)"
proof (cases "\<not> truthy val \<and> val \<noteq> JNum (Finite 0)")
  case False
  then have nn: "val \<noteq> JNum NaN" by auto
  from False have "parseYesNo js val =
      (let normalized = trim (toLowerCase (String_js js val))
       in if normalized = ''yes'' then JStr ''Yes''
          else if normalized = ''no'' then JStr ''No'' else JNull)"
    unfolding parseYesNo_def by (simp only: if_False)
  with nn show ?thesis
    by (simp add: normalize_claimed_def trim_toLowerCase Let_def)
next
  case True
  then consider "val = JUndefined" | "val = JNull" | "val = JBool False" | "val = JNum NaN"
    | "val = JStr []"
    by (cases val) auto
  then show ?thesis
    by cases (simp_all add: parseYesNo_def normalize_claimed_def string_eval)
qed

section \<open>The normalizer\<close>

text \<open>
  C9.  The normalizer \<^verbatim>\<open>parseYesNo\<close> is idempotent: applied to one of its own
  results (\<^verbatim>\<open>'Yes'\<close>, \<^verbatim>\<open>'No'\<close> or \<^verbatim>\<open>null\<close>) it returns that result, for
  every input value and whatever the number built-ins do.
\<close>

theorem parseYesNo_idempotent: "parseYesNo js (parseYesNo js val) = parseYesNo js val"
proof -
  from parseYesNo_range [of js val]
  consider "parseYesNo js val = JStr ''Yes''" | "parseYesNo js val = JStr ''No''"
    | "parseYesNo js val = JNull"
    by auto
  then show ?thesis
    by cases (simp_all add: parseYesNo_Yes parseYesNo_No parseYesNo_Null)
qed

section \<open>The compliance record\<close>

text \<open>
  C1.  For every raw compliance input, the three fields of the record of
  \<^verbatim>\<open>parseComplianceData\<close> are the normalizer's results on the three raw values
  (and unknown for an absent input), each \<^verbatim>\<open>Yes\<close>, \<^verbatim>\<open>No\<close> or unknown; the
  normalizer is the one of the specification (string, trim, lowercase, \<^verbatim>\<open>yes\<close> or
  \<^verbatim>\<open>no\<close>), but for the number \<^verbatim>\<open>NaN\<close>, which it makes unknown without
  printing it.  The status is \<^verbatim>\<open>UNKNOWN\<close> exactly when all three fields are unknown
  and \<^verbatim>\<open>COMPLIANT\<close> exactly when all three are \<^verbatim>\<open>Yes\<close>; in every other case it
  is \<^verbatim>\<open>NON_COMPLIANT\<close> and the issue list holds, in the order staff, CESMPS, OHS,
  one entry for each field that is not \<^verbatim>\<open>Yes\<close>: the field's "status unknown" text
  when the field is unknown, its "not submitted" / "not in place" text when it is
  \<^verbatim>\<open>No\<close>.  The input \<^verbatim>\<open>{staffRfb: "Yes", cesmps: "no", ohs: null}\<close> gives
  \<^verbatim>\<open>NON_COMPLIANT\<close> with the issues \<^verbatim>\<open>["CESMPS not submitted", "OHS measures
  status unknown"]\<close>.
\<close>

theorem parseComplianceData_status_issues:
  "(let r = parseComplianceData js raw in
     no_of_staff_rfb r =
       (case raw of None \<Rightarrow> JNull | Some x \<Rightarrow> parseYesNo js (raw_no_of_staff_rfb x)) \<and>
     cesmps_submitted r =
       (case raw of None \<Rightarrow> JNull | Some x \<Rightarrow> parseYesNo js (raw_cesmps_submitted x)) \<and>
     ohs_measures r =
       (case raw of None \<Rightarrow> JNull | Some x \<Rightarrow> parseYesNo js (raw_ohs_measures x)) \<and>
     no_of_staff_rfb r \<in> {JStr ''Yes'', JStr ''No'', JNull} \<and>
     cesmps_submitted r \<in> {JStr ''Yes'', JStr ''No'', JNull} \<and>
     ohs_measures r \<in> {JStr ''Yes'', JStr ''No'', JNull} \<and>
     (status r = UNKNOWN \<longleftrightarrow>
        no_of_staff_rfb r = JNull \<and> cesmps_submitted r = JNull \<and> ohs_measures r = JNull) \<and>
     (status r = COMPLIANT \<longleftrightarrow>
        no_of_staff_rfb r = JStr ''Yes'' \<and> cesmps_submitted r = JStr ''Yes'' \<and>
        ohs_measures r = JStr ''Yes'') \<and>
     (status r \<noteq> UNKNOWN \<and> status r \<noteq> COMPLIANT \<longrightarrow>
        status r = NON_COMPLIANT \<and>
        issues r =
          field_issue ''Staff RFB status unknown'' ''Staff RFB not submitted''
            (no_of_staff_rfb r) @
          field_issue ''CESMPS submission status unknown'' ''CESMPS not submitted''
            (cesmps_submitted r) @
          field_issue ''OHS measures status unknown'' ''OHS measures not in place''
            (ohs_measures r) \<and>
        length (issues r) =
          length (filter (\<lambda>field. field \<noteq> JStr ''Yes'')
                    [no_of_staff_rfb r, cesmps_submitted r, ohs_measures r])))
   \<and> parseYesNo js val = (if val = JNum NaN then JNull else normalize_claimed js val)
   \<and> parseComplianceData js
        (Some \<lparr>raw_no_of_staff_rfb = JStr ''Yes'', raw_cesmps_submitted = JStr ''no'',
               raw_ohs_measures = JNull\<rparr>) =
       \<lparr>no_of_staff_rfb = JStr ''Yes'', cesmps_submitted = JStr ''No'', ohs_measures = JNull,
        status = NON_COMPLIANT,
        issues = [''CESMPS not submitted'', ''OHS measures status unknown'']\<rparr>"
proof -
  have main: "let r = parseComplianceData js raw in
     no_of_staff_rfb r =
       (case raw of None \<Rightarrow> JNull | Some x \<Rightarrow> parseYesNo js (raw_no_of_staff_rfb x)) \<and>
     cesmps_submitted r =
       (case raw of None \<Rightarrow> JNull | Some x \<Rightarrow> parseYesNo js (raw_cesmps_submitted x)) \<and>
     ohs_measures r =
       (case raw of None \<Rightarrow> JNull | Some x \<Rightarrow> parseYesNo js (raw_ohs_measures x)) \<and>
     no_of_staff_rfb r \<in> {JStr ''Yes'', JStr ''No'', JNull} \<and>
     cesmps_submitted r \<in> {JStr ''Yes'', JStr ''No'', JNull} \<and>
     ohs_measures r \<in> {JStr ''Yes'', JStr ''No'', JNull} \<and>
     (status r = UNKNOWN \<longleftrightarrow>
        no_of_staff_rfb r = JNull \<and> cesmps_submitted r = JNull \<and> ohs_measures r = JNull) \<and>
     (status r = COMPLIANT \<longleftrightarrow>
        no_of_staff_rfb r = JStr ''Yes'' \<and> cesmps_submitted r = JStr ''Yes'' \<and>
        ohs_measures r = JStr ''Yes'') \<and>
     (status r \<noteq> UNKNOWN \<and> status r \<noteq> COMPLIANT \<longrightarrow>
        status r = NON_COMPLIANT \<and>
        issues r =
          field_issue ''Staff RFB status unknown'' ''Staff RFB not submitted''
            (no_of_staff_rfb r) @
          field_issue ''CESMPS submission status unknown'' ''CESMPS not submitted''
            (cesmps_submitted r) @
          field_issue ''OHS measures status unknown'' ''OHS measures not in place''
            (ohs_measures r) \<and>
        length (issues r) =
          length (filter (\<lambda>field. field \<noteq> JStr ''Yes'')
                    [no_of_staff_rfb r, cesmps_submitted r, ohs_measures r]))"
  proof (cases raw)
    case None
    then show ?thesis by (simp add: parseComplianceData_def)
  next
    case (Some x)
    from parseYesNo_range [of js "raw_no_of_staff_rfb x"]
      parseYesNo_range [of js "raw_cesmps_submitted x"]
      parseYesNo_range [of js "raw_ohs_measures x"]
    show ?thesis unfolding Some
      by (auto simp add: parseComplianceData_def Let_def field_issue_def)
  qed
  have ex: "parseComplianceData js
        (Some \<lparr>raw_no_of_staff_rfb = JStr ''Yes'', raw_cesmps_submitted = JStr ''no'',
               raw_ohs_measures = JNull\<rparr>) =
       \<lparr>no_of_staff_rfb = JStr ''Yes'', cesmps_submitted = JStr ''No'', ohs_measures = JNull,
        status = NON_COMPLIANT,
        issues = [''CESMPS not submitted'', ''OHS measures status unknown'']\<rparr>"
    by (simp add: parseComplianceData_def parseYesNo_def string_eval)
  from main parseYesNo_normalize [of js val] ex show ?thesis by (simp only: simp_thms)
qed

theorem parseComplianceData_status_issues_witness:
  "status (parseComplianceData js_example
      (Some \<lparr>raw_no_of_staff_rfb = JStr '' NO'', raw_cesmps_submitted = JStr ''YES'',
             raw_ohs_measures = JNum (Finite 3)\<rparr>)) = NON_COMPLIANT
   \<and> issues (parseComplianceData js_example
      (Some \<lparr>raw_no_of_staff_rfb = JStr '' NO'', raw_cesmps_submitted = JStr ''YES'',
             raw_ohs_measures = JNum (Finite 3)\<rparr>)) =
       [''Staff RFB not submitted'', ''OHS measures status unknown'']"
proof -
  have fields:
    "parseYesNo js_example (JStr '' NO'') = JStr ''No''"
    "parseYesNo js_example (JStr ''YES'') = JStr ''Yes''"
    "parseYesNo js_example (JNum (Finite 3)) = JNull"
    by (simp_all add: parseYesNo_def string_eval js_example_def show_nat.simps)
  from parseComplianceData_status_issues [where js = js_example and val = JNull and raw =
      "Some \<lparr>raw_no_of_staff_rfb = JStr '' NO'', raw_cesmps_submitted = JStr ''YES'',
             raw_ohs_measures = JNum (Finite 3)\<rparr>"]
  show ?thesis
    by (simp add: Let_def fields field_issue_def)
qed

section \<open>IPC records\<close>

lemma ipc_loop_append:
  "ipc_loop js E sheet col recs = recs @ map (ipc_record js E sheet) [col..<30]"
proof (induction js E sheet col recs rule: ipc_loop.induct)
  case (1 js E sheet col recs)
  show ?case
  proof (cases "col \<le> 29")
    case True
    then have "[col..<30] = col # [col + 1..<30]"
      by (simp add: upt_conv_Cons)
    with True 1 show ?thesis by simp
  next
    case False
    then show ?thesis by simp
  qed
qed

lemma upt_24_30: "[24..<30] = [24, 25, 26, 27, 28, 29::nat]"
  by (simp add: upt_conv_Cons)

lemma records_parseIPCData:
  "records (parseIPCData js E sheet) = map (ipc_record js E sheet) [24, 25, 26, 27, 28, 29]"
  by (simp add: parseIPCData_def ipc_loop_append upt_24_30)

lemma lower_char_not_upper:
  "\<not> (65 \<le> (of_char (lower_char c) :: nat) \<and> (of_char (lower_char c) :: nat) \<le> 90)"
  by (auto simp add: lower_char_def Let_def)

lemma normalized_no_upper:
  assumes "c \<in> set (trim (toLowerCase s))"
  shows "\<not> (65 \<le> (of_char c :: nat) \<and> (of_char c :: nat) \<le> 90)"
proof -
  from assms have "c \<in> set (toLowerCase s)"
    unfolding trim_def by (auto dest!: set_dropWhileD)
  then obtain d where "c = lower_char d"
    by (auto simp add: toLowerCase_def)
  then show ?thesis using lower_char_not_upper by simp
qed

text \<open>
  Of the properties every object inherits, only \<^verbatim>\<open>constructor\<close> and
  \<^verbatim>\<open>__proto__\<close> are written without a capital, so only these two can be the
  lowercased key.
\<close>

lemma statusMap_normalized:
  assumes "raw = trim (toLowerCase s)"
  shows "statusMap raw =
     (if raw \<in> {''not submitted'', ''submitted'', ''in process'', ''released''} then SStr raw
      else if raw \<in> {''constructor'', ''__proto__''} then SObject raw
      else SUndefined)"
proof -
  have up: "\<And>c. c \<in> set raw \<Longrightarrow> \<not> (65 \<le> (of_char c :: nat) \<and> (of_char c :: nat) \<le> 90)"
    using normalized_no_upper assms by blast
  have "raw \<noteq> ''__defineGetter__''" using up [of "CHR ''G''"] by auto
  moreover have "raw \<noteq> ''__defineSetter__''" using up [of "CHR ''S''"] by auto
  moreover have "raw \<noteq> ''hasOwnProperty''" using up [of "CHR ''O''"] by auto
  moreover have "raw \<noteq> ''__lookupGetter__''" using up [of "CHR ''G''"] by auto
  moreover have "raw \<noteq> ''__lookupSetter__''" using up [of "CHR ''S''"] by auto
  moreover have "raw \<noteq> ''isPrototypeOf''" using up [of "CHR ''P''"] by auto
  moreover have "raw \<noteq> ''propertyIsEnumerable''" using up [of "CHR ''I''"] by auto
  moreover have "raw \<noteq> ''toString''" using up [of "CHR ''S''"] by auto
  moreover have "raw \<noteq> ''valueOf''" using up [of "CHR ''O''"] by auto
  moreover have "raw \<noteq> ''toLocaleString''" using up [of "CHR ''L''"] by auto
  ultimately show ?thesis
    by (simp add: statusMap_def Object_prototype_keys_def)
qed

lemma status_of_normalized:
  assumes "raw = trim (toLowerCase s)"
  shows "(if raw \<noteq> [] \<and> status_truthy (statusMap raw) then statusMap raw else SNull) =
     (if raw \<in> {''not submitted'', ''submitted'', ''in process'', ''released''} then SStr raw
      else if raw \<in> {''constructor'', ''__proto__''} then SObject raw
      else SNull)"
proof -
  define V where "V = {''not submitted'', ''submitted'', ''in process'', ''released''}"
  define I where "I = {''constructor'', ''__proto__''}"
  have sm: "statusMap raw =
      (if raw \<in> V then SStr raw else if raw \<in> I then SObject raw else SUndefined)"
    unfolding V_def I_def by (rule statusMap_normalized [OF assms])
  have ne: "[] \<notin> V" "[] \<notin> I"
    by (simp_all add: V_def I_def)
  have "(if raw \<noteq> [] \<and> status_truthy (statusMap raw) then statusMap raw else SNull) =
     (if raw \<in> V then SStr raw else if raw \<in> I then SObject raw else SNull)"
  proof (cases "raw \<in> V")
    case True
    with ne have "raw \<noteq> []" by blast
    with True show ?thesis by (simp add: sm)
  next
    case False
    show ?thesis
    proof (cases "raw \<in> I")
      case True
      with ne have "raw \<noteq> []" by blast
      with True False show ?thesis by (simp add: sm)
    next
      case nI: False
      with False show ?thesis by (simp add: sm)
    qed
  qed
  then show ?thesis unfolding V_def I_def .
qed

lemma ipc_record_status:
  "ipc_record js E sheet col =
     \<lparr>ipcNumber = ipcLabels ! (col - 24),
      ipcStatus = ipc_cell_status js (sheet (encode_cell E 1 col))\<rparr>"
proof (cases "sheet (encode_cell E 1 col)")
  case None
  then show ?thesis by (simp add: ipc_record_def ipc_cell_status_def)
next
  case (Some c)
  show ?thesis
  proof (cases "truthy (cell_v c)")
    case False
    with Some show ?thesis by (simp add: ipc_record_def ipc_cell_status_def)
  next
    case True
    note st = status_of_normalized [OF refl, of "String_js js (cell_v c)"]
    from Some True show ?thesis
      by (simp only: ipc_record_def ipc_cell_status_def Let_def option.case if_True if_False
            simp_thms st)
  qed
qed

lemmas example_eval = env_example_def encode_cell_A1_def encode_col_def show_nat.simps
  char_of_eq_iff

lemma fetch_workbook_source1: "fetch_workbook env_example cellDates source1 = Inr workbook_example"
  by (simp add: fetch_workbook_def env_example_def source1_def)

lemma fetch_workbook_source2:
  "fetch_workbook env_example cellDates source2 =
     Inl (Error ''Failed to fetch XLSX: Internal Server Error'')"
  by (simp add: fetch_workbook_def env_example_def source2_def)

lemma fetch_workbook_source3: "fetch_workbook env_example cellDates source3 = Inr workbook_renamed"
  by (simp add: fetch_workbook_def env_example_def source3_def)

text \<open>
  C3.  \<^verbatim>\<open>parseIPCData\<close> reads the cells of row index 1, column indices 24 to 29, in
  that order, and labels the records \<^verbatim>\<open>IPC 1\<close> to \<^verbatim>\<open>IPC 6\<close>; a value of the
  closed vocabulary, lowercased and trimmed, gives that status, and an absent or empty
  cell gives \<^verbatim>\<open>null\<close>.  A value outside the vocabulary gives \<^verbatim>\<open>null\<close> too, with
  two exceptions: a cell that holds \<^verbatim>\<open>constructor\<close> or \<^verbatim>\<open>__proto__\<close> (in any
  case, with any white space around) gets as its status the property of that name which
  \<^verbatim>\<open>statusMap\<close> inherits, a function or an object, where the declared type of the
  field is \<^verbatim>\<open>IPCStatus | null\<close>.  The worksheet whose cell Y2 holds
  \<^verbatim>\<open>constructor\<close> shows it; the cells of the specification's example give the six
  statuses it names.
\<close>

theorem parseIPCData_positions_and_inherited_status:
  "records (parseIPCData js E sheet) =
     map (\<lambda>col. \<lparr>ipcNumber = ipcLabels ! (col - 24),
                  ipcStatus = ipc_cell_status js (sheet (encode_cell E 1 col))\<rparr>)
       [24, 25, 26, 27, 28, 29]
   \<and> records (parseIPCData js env_example sheet_constructor) ! 0 =
       \<lparr>ipcNumber = ''IPC 1'', ipcStatus = SObject ''constructor''\<rparr>
   \<and> records (parseIPCData js env_example sheet_example) =
       [\<lparr>ipcNumber = ''IPC 1'', ipcStatus = SStr ''released''\<rparr>,
        \<lparr>ipcNumber = ''IPC 2'', ipcStatus = SStr ''in process''\<rparr>,
        \<lparr>ipcNumber = ''IPC 3'', ipcStatus = SStr ''submitted''\<rparr>,
        \<lparr>ipcNumber = ''IPC 4'', ipcStatus = SStr ''not submitted''\<rparr>,
        \<lparr>ipcNumber = ''IPC 5'', ipcStatus = SNull\<rparr>,
        \<lparr>ipcNumber = ''IPC 6'', ipcStatus = SStr ''released''\<rparr>]"
proof (intro conjI)
  show "records (parseIPCData js E sheet) =
     map (\<lambda>col. \<lparr>ipcNumber = ipcLabels ! (col - 24),
                  ipcStatus = ipc_cell_status js (sheet (encode_cell E 1 col))\<rparr>)
       [24, 25, 26, 27, 28, 29]"
    by (simp add: records_parseIPCData ipc_record_status)
  show "records (parseIPCData js env_example sheet_constructor) ! 0 =
       \<lparr>ipcNumber = ''IPC 1'', ipcStatus = SObject ''constructor''\<rparr>"
    by (simp add: records_parseIPCData ipc_record_def example_eval sheet_constructor_def
          string_eval statusMap_def ipcLabels_def Object_prototype_keys_def)
  show "records (parseIPCData js env_example sheet_example) =
       [\<lparr>ipcNumber = ''IPC 1'', ipcStatus = SStr ''released''\<rparr>,
        \<lparr>ipcNumber = ''IPC 2'', ipcStatus = SStr ''in process''\<rparr>,
        \<lparr>ipcNumber = ''IPC 3'', ipcStatus = SStr ''submitted''\<rparr>,
        \<lparr>ipcNumber = ''IPC 4'', ipcStatus = SStr ''not submitted''\<rparr>,
        \<lparr>ipcNumber = ''IPC 5'', ipcStatus = SNull\<rparr>,
        \<lparr>ipcNumber = ''IPC 6'', ipcStatus = SStr ''released''\<rparr>]"
    by (simp add: records_parseIPCData ipc_record_def example_eval sheet_example_def
          string_eval statusMap_def ipcLabels_def)
qed

text \<open>
  C2.  The record list of \<^verbatim>\<open>fetchAllIPCData\<close> has no record or six, for every
  configuration, network and workbook.  It is empty when no source is configured, when
  the fetch of the first source fails (on the network, by its status, or in decoding),
  and when the workbook has no worksheet of the configured name; it has six records
  when that worksheet is there, as \<^verbatim>\<open>parseIPCData\<close> returns six for every
  worksheet.
\<close>

theorem fetchAllIPCData_none_or_six:
  "length (records (fetchAllIPCData js E tabName srcs)) \<in> {0, 6}
   \<and> (srcs = []
        \<or> (\<exists>source rest e. srcs = source # rest \<and> fetch_workbook E False source = Inl e)
        \<or> (\<exists>source rest workbook. srcs = source # rest
              \<and> fetch_workbook E False source = Inr workbook \<and> Sheets workbook tabName = None)
      \<longrightarrow> records (fetchAllIPCData js E tabName srcs) = [])
   \<and> ((\<exists>source rest workbook sheet. srcs = source # rest
          \<and> fetch_workbook E False source = Inr workbook
          \<and> Sheets workbook tabName = Some sheet)
      \<longrightarrow> length (records (fetchAllIPCData js E tabName srcs)) = 6)
   \<and> length (records (parseIPCData js E sheet)) = 6"
  by (auto simp add: fetchAllIPCData_def fetchAllIPCData_try_def records_parseIPCData
        split: list.splits sum.splits option.splits)

theorem fetchAllIPCData_none_or_six_witness:
  "records (fetchAllIPCData js_example env_example ''Data_Entry'' []) = []
   \<and> records (fetchAllIPCData js_example env_example ''Data_Entry'' [source2, source1]) = []
   \<and> records (fetchAllIPCData js_example env_example ''Data_Entry'' [source3]) = []
   \<and> length (records (fetchAllIPCData js_example env_example ''Data_Entry''
        [source1, source2, source3])) = 6"
proof -
  have missing: "Sheets workbook_renamed ''Data_Entry'' = None"
    by (simp add: workbook_renamed_def)
  have present: "Sheets workbook_example ''Data_Entry'' = Some sheet_example"
    by (simp add: workbook_example_def)
  from fetchAllIPCData_none_or_six [of js_example env_example "''Data_Entry''" "[]"]
    fetchAllIPCData_none_or_six [of js_example env_example "''Data_Entry''" "[source2, source1]"]
    fetchAllIPCData_none_or_six [of js_example env_example "''Data_Entry''" "[source3]"]
    fetchAllIPCData_none_or_six [of js_example env_example "''Data_Entry''"
      "[source1, source2, source3]"]
  show ?thesis
    by (simp add: fetch_workbook_source1 fetch_workbook_source2 fetch_workbook_source3
          missing present)
qed

section \<open>The maps of all sources\<close>

lemma fetchSheet_packageId: "fetchSheet E source = Inr (pid, rows) \<Longrightarrow> pid = packageId source"
  by (auto simp add: fetchSheet_def Let_def split: sum.splits)

lemma forEach_sheets_fold:
  "forEach_sheets (map (fetchSheet E) (drop i S)) i S m =
     fold (set_entry packageId (sheet_rows E)) (drop i S) m"
proof (induction "length S - i" arbitrary: i m)
  case 0
  then show ?case by simp
next
  case (Suc n)
  then have lt: "i < length S" by simp
  then have dr: "drop i S = S ! i # drop (Suc i) S"
    by (simp add: Cons_nth_drop_Suc)
  from Suc have n: "n = length S - Suc i" by simp
  have step:
    "(case fetchSheet E (S ! i) of
        Inr (pid, rows) \<Rightarrow> m(pid \<mapsto> rows)
      | Inl reason \<Rightarrow> m(packageId (S ! i) \<mapsto> [])) =
     set_entry packageId (sheet_rows E) (S ! i) m"
    by (auto simp add: sheet_rows_def set_entry_def split: sum.splits dest: fetchSheet_packageId)
  show ?case
    unfolding dr by (simp add: Suc.hyps(1) [OF n] step)
qed

lemma fetchAllSheets_fold:
  "fetchAllSheets E S = fold (set_entry packageId (sheet_rows E)) S Map.empty"
  using forEach_sheets_fold [of E 0 S Map.empty] by (simp add: fetchAllSheets_def)

lemma fetchCompliance_packageId: "fst (fetchCompliance js E source) = packageId source"
  by (auto simp add: fetchCompliance_def fetchCompliance_try_def Let_def
        split: sum.splits list.splits)

lemma forEach_compliance_fold:
  "forEach_compliance (map (fetchCompliance js E) S) m =
     fold (set_entry packageId (\<lambda>source. snd (fetchCompliance js E source))) S m"
proof (induction S arbitrary: m)
  case Nil
  then show ?case by simp
next
  case (Cons s S)
  obtain pid c where pc: "fetchCompliance js E s = (pid, c)"
    by (cases "fetchCompliance js E s")
  with fetchCompliance_packageId [of js E s] have "pid = packageId s" by simp
  with pc have
    "m(pid \<mapsto> c) = set_entry packageId (\<lambda>source. snd (fetchCompliance js E source)) s m"
    by (simp add: set_entry_def)
  with pc Cons show ?case by simp
qed

lemma fetchAllComplianceData_fold:
  "fetchAllComplianceData js E S =
     fold (set_entry packageId (\<lambda>source. snd (fetchCompliance js E source))) S Map.empty"
  by (simp add: fetchAllComplianceData_def forEach_compliance_fold)

lemma fold_set_entry_commute:
  "key \<notin> k ` set ys \<Longrightarrow>
   fold (set_entry k v) ys (m(key \<mapsto> a)) = (fold (set_entry k v) ys m)(key \<mapsto> a)"
proof (induction ys arbitrary: m)
  case Nil
  then show ?case by simp
next
  case (Cons y ys)
  then have ne: "key \<noteq> k y" and rest: "key \<notin> k ` set ys" by auto
  have "set_entry k v y (m(key \<mapsto> a)) = (set_entry k v y m)(key \<mapsto> a)"
    unfolding set_entry_def using ne by (rule fun_upd_twist)
  then have "fold (set_entry k v) (y # ys) (m(key \<mapsto> a)) =
      fold (set_entry k v) ys ((set_entry k v y m)(key \<mapsto> a))"
    by (simp only: fold_simps)
  also have "\<dots> = (fold (set_entry k v) ys (set_entry k v y m))(key \<mapsto> a)"
    by (rule Cons.IH [OF rest])
  also have "\<dots> = (fold (set_entry k v) (y # ys) m)(key \<mapsto> a)"
    by (simp only: fold_simps)
  finally show ?case .
qed

lemma dom_fold_set_entry: "dom (fold (set_entry k v) xs m) = dom m \<union> k ` set xs"
  by (induction xs arbitrary: m) (auto simp add: set_entry_def)

lemma fold_set_entry_remove:
  assumes "k s \<notin> k ` set ys"
  shows "fold (set_entry k v) (xs @ s # ys) m =
         (fold (set_entry k v) (xs @ ys) m)(k s \<mapsto> v s)"
proof -
  have "fold (set_entry k v) (xs @ s # ys) m =
        fold (set_entry k v) ys ((fold (set_entry k v) xs m)(k s \<mapsto> v s))"
    by (simp add: set_entry_def [of k v s])
  also have "\<dots> = (fold (set_entry k v) ys (fold (set_entry k v) xs m))(k s \<mapsto> v s)"
    using assms by (rule fold_set_entry_commute)
  finally show ?thesis by simp
qed

lemma fold_set_entry_distinct:
  assumes "distinct (map k xs)" "s \<in> set xs"
  shows "fold (set_entry k v) xs m (k s) = Some (v s)"
proof -
  from assms(2) obtain as bs where xs: "xs = as @ s # bs"
    by (auto simp add: in_set_conv_decomp)
  with assms(1) have "k s \<notin> k ` set bs" by auto
  from fold_set_entry_remove [OF this, of v as m] show ?thesis unfolding xs by simp
qed

lemmas sheet_eval = sheet_to_json_example_def header_and_data_cells_def

lemma sheetName_of_examples:
  "sheetName_of workbook_example = ''Data_Entry''"
  "sheetName_of workbook_renamed = ''Sheet1''"
  by (simp_all add: sheetName_of_def workbook_example_def workbook_renamed_def)

lemma packageId_examples:
  "packageId source1 = ''P1''" "packageId source2 = ''P2''" "packageId source3 = ''P3''"
  "packageId source4 = ''P4''" "packageId source5 = ''P5''"
  by (simp_all add: source1_def source2_def source3_def source4_def source5_def)

text \<open>
  C10.  The keys of the map of \<^verbatim>\<open>fetchAllSheets\<close> are the package identifiers of
  the configured sources.  When these are distinct the map has as many entries as there
  are sources, and the entry of each source holds the rows of its worksheet, or no row
  when its fetch failed: a failed source is present in the map all the same.
\<close>

theorem fetchAllSheets_keys:
  "dom (fetchAllSheets E srcs) = packageId ` set srcs
   \<and> (distinct (map packageId srcs) \<longrightarrow>
        card (dom (fetchAllSheets E srcs)) = length srcs
        \<and> (\<forall>source \<in> set srcs.
              fetchAllSheets E srcs (packageId source) =
                Some (case fetch_workbook E True source of
                        Inl e \<Rightarrow> []
                      | Inr workbook \<Rightarrow>
                          sheet_to_json E (Sheets workbook (sheetName_of workbook)))))"
proof (intro conjI impI ballI)
  show d: "dom (fetchAllSheets E srcs) = packageId ` set srcs"
    by (simp add: fetchAllSheets_fold dom_fold_set_entry)
  assume dist: "distinct (map packageId srcs)"
  then show "card (dom (fetchAllSheets E srcs)) = length srcs"
    unfolding d by (metis distinct_card length_map list.set_map)
  fix source assume "source \<in> set srcs"
  with dist have "fetchAllSheets E srcs (packageId source) = Some (sheet_rows E source)"
    by (simp add: fetchAllSheets_fold fold_set_entry_distinct)
  then show "fetchAllSheets E srcs (packageId source) =
                Some (case fetch_workbook E True source of
                        Inl e \<Rightarrow> []
                      | Inr workbook \<Rightarrow>
                          sheet_to_json E (Sheets workbook (sheetName_of workbook)))"
    by (simp add: sheet_rows_def fetchSheet_def Let_def split: sum.splits)
qed

theorem fetchAllSheets_keys_witness:
  "dom (fetchAllSheets env_example [source1, source2, source3]) = {''P1'', ''P2'', ''P3''}
   \<and> card (dom (fetchAllSheets env_example [source1, source2, source3])) = 3
   \<and> fetchAllSheets env_example [source1, source2, source3] ''P2'' = Some []
   \<and> map_option (map (\<lambda>row. row ''Site ID''))
        (fetchAllSheets env_example [source1, source2, source3] ''P1'') = Some [JStr ''S-001'']"
proof -
  have dist: "distinct (map packageId [source1, source2, source3])"
    by (simp add: packageId_examples)
  have r1: "map (\<lambda>row. row ''Site ID'') (sheet_to_json_example (Some sheet_example)) =
      [JStr ''S-001'']"
    by (simp add: sheet_eval sheet_example_def)
  have sj: "sheet_to_json env_example = sheet_to_json_example"
    by (simp add: env_example_def)
  have ws: "Sheets workbook_example ''Data_Entry'' = Some sheet_example"
    by (simp add: workbook_example_def)
  from fetchAllSheets_keys [of env_example "[source1, source2, source3]"] dist
  show ?thesis
    by (simp add: packageId_examples fetch_workbook_source1 fetch_workbook_source2
          fetch_workbook_source3 sheetName_of_examples sj ws r1)
qed

lemma fold_set_entry_cong:
  "m1 key = m2 key \<Longrightarrow> fold (set_entry k v) ys m1 key = fold (set_entry k v) ys m2 key"
proof (induction ys arbitrary: m1 m2)
  case Nil
  then show ?case by simp
next
  case (Cons y ys)
  from Cons.prems have "set_entry k v y m1 key = set_entry k v y m2 key"
    by (simp add: set_entry_def)
  from Cons.IH [of "set_entry k v y m1" "set_entry k v y m2", OF this] show ?case by simp
qed

lemma fold_set_entry_other:
  assumes "key \<noteq> k s"
  shows "fold (set_entry k v) (xs @ s # ys) m key = fold (set_entry k v) (xs @ ys) m key"
proof -
  from assms
  have "set_entry k v s (fold (set_entry k v) xs m) key = fold (set_entry k v) xs m key"
    by (simp add: set_entry_def)
  from fold_set_entry_cong [of "set_entry k v s (fold (set_entry k v) xs m)" key
      "fold (set_entry k v) xs m" k v ys, OF this]
  show ?thesis by simp
qed

lemma fetch_workbook_fails:
  assumes "fetch E (publishedXlsxUrl s) = None
     \<or> (\<exists>response. fetch E (publishedXlsxUrl s) = Some response
           \<and> (\<not> ok response \<or> XLSX_read E cellDates (arrayBuffer response) = None))"
  shows "\<exists>e. fetch_workbook E cellDates s = Inl e"
  using assms by (auto simp add: fetch_workbook_def)

lemma sheet_rows_failed: "fetch_workbook E True s = Inl e \<Longrightarrow> sheet_rows E s = []"
  by (simp add: sheet_rows_def fetchSheet_def)

lemma fetchCompliance_failed:
  "fetch_workbook E True s = Inl e \<Longrightarrow>
   snd (fetchCompliance js E s) = parseComplianceData js None"
  by (simp add: fetchCompliance_def fetchCompliance_try_def)

lemma search_column_first_value: "search_column row names = first_value row names"
  by (induction names) (simp_all add: first_value_def first_present_def absent_or_empty_def)

lemma fetchCompliance_extract:
  "fetchCompliance js E source =
     (packageId source,
      case fetch_workbook E True source of
        Inl e \<Rightarrow> parseComplianceData js None
      | Inr workbook \<Rightarrow>
          extract_compliance js (sheet_to_json E (Sheets workbook (sheetName_of workbook))))"
  by (simp add: fetchCompliance_def fetchCompliance_try_def extract_compliance_def Let_def
        search_column_first_value split: sum.splits list.splits)

text \<open>
  C5, as the code has it.  Let the fetch of one source \<open>s\<close> fail: on the network, by
  a status that is not a success, or by a payload that cannot be decoded.  Then both
  maps, of task rows and of compliance, are at every other package identifier what they
  are when \<open>s\<close> is taken out of the source list; and when no later source has the
  identifier of \<open>s\<close>, they are those maps with one more entry, for \<open>s\<close>: no row,
  and the compliance record of an absent input, whose status is \<^verbatim>\<open>UNKNOWN\<close>.  So
  when the package identifiers of the list are distinct, the entry of every other source
  is what it is without \<open>s\<close>, and the entry of \<open>s\<close> is the degraded one.
\<close>

theorem source_failure_isolated:
  assumes fails: "fetch E (publishedXlsxUrl s) = None
     \<or> (\<exists>response. fetch E (publishedXlsxUrl s) = Some response
           \<and> (\<not> ok response \<or> XLSX_read E True (arrayBuffer response) = None))"
  shows "(\<forall>key. key \<noteq> packageId s \<longrightarrow>
            fetchAllSheets E (xs @ s # ys) key = fetchAllSheets E (xs @ ys) key
            \<and> fetchAllComplianceData js E (xs @ s # ys) key =
                fetchAllComplianceData js E (xs @ ys) key)
    \<and> (packageId s \<notin> packageId ` set ys \<longrightarrow>
          fetchAllSheets E (xs @ s # ys) = (fetchAllSheets E (xs @ ys))(packageId s \<mapsto> [])
          \<and> fetchAllComplianceData js E (xs @ s # ys) =
              (fetchAllComplianceData js E (xs @ ys))
                (packageId s \<mapsto> parseComplianceData js None))
    \<and> (distinct (map packageId (xs @ s # ys)) \<longrightarrow>
          (\<forall>p \<in> set (xs @ ys).
              fetchAllSheets E (xs @ s # ys) (packageId p) =
                fetchAllSheets E (xs @ ys) (packageId p)
              \<and> fetchAllComplianceData js E (xs @ s # ys) (packageId p) =
                  fetchAllComplianceData js E (xs @ ys) (packageId p))
          \<and> fetchAllSheets E (xs @ s # ys) (packageId s) = Some []
          \<and> fetchAllComplianceData js E (xs @ s # ys) (packageId s) =
              Some (parseComplianceData js None))
    \<and> status (parseComplianceData js None) = UNKNOWN"
proof -
  from fetch_workbook_fails [OF fails] obtain e where e: "fetch_workbook E True s = Inl e" ..
  have other: "fetchAllSheets E (xs @ s # ys) key = fetchAllSheets E (xs @ ys) key
      \<and> fetchAllComplianceData js E (xs @ s # ys) key =
          fetchAllComplianceData js E (xs @ ys) key"
    if ne: "key \<noteq> packageId s" for key
  proof
    show "fetchAllSheets E (xs @ s # ys) key = fetchAllSheets E (xs @ ys) key"
      unfolding fetchAllSheets_fold using ne by (rule fold_set_entry_other)
    show "fetchAllComplianceData js E (xs @ s # ys) key =
        fetchAllComplianceData js E (xs @ ys) key"
      unfolding fetchAllComplianceData_fold using ne by (rule fold_set_entry_other)
  qed
  have own: "fetchAllSheets E (xs @ s # ys) = (fetchAllSheets E (xs @ ys))(packageId s \<mapsto> [])
      \<and> fetchAllComplianceData js E (xs @ s # ys) =
          (fetchAllComplianceData js E (xs @ ys))
            (packageId s \<mapsto> parseComplianceData js None)"
    if last: "packageId s \<notin> packageId ` set ys"
  proof
    have "fetchAllSheets E (xs @ s # ys) =
        (fetchAllSheets E (xs @ ys))(packageId s \<mapsto> sheet_rows E s)"
      unfolding fetchAllSheets_fold by (rule fold_set_entry_remove [OF last])
    then show "fetchAllSheets E (xs @ s # ys) =
        (fetchAllSheets E (xs @ ys))(packageId s \<mapsto> [])"
      by (simp only: sheet_rows_failed [OF e])
    have "fetchAllComplianceData js E (xs @ s # ys) =
        (fetchAllComplianceData js E (xs @ ys))
          (packageId s \<mapsto> snd (fetchCompliance js E s))"
      unfolding fetchAllComplianceData_fold by (rule fold_set_entry_remove [OF last])
    then show "fetchAllComplianceData js E (xs @ s # ys) =
        (fetchAllComplianceData js E (xs @ ys))
          (packageId s \<mapsto> parseComplianceData js None)"
      by (simp only: fetchCompliance_failed [OF e])
  qed
  have dist: "(\<forall>p \<in> set (xs @ ys).
              fetchAllSheets E (xs @ s # ys) (packageId p) =
                fetchAllSheets E (xs @ ys) (packageId p)
              \<and> fetchAllComplianceData js E (xs @ s # ys) (packageId p) =
                  fetchAllComplianceData js E (xs @ ys) (packageId p))
          \<and> fetchAllSheets E (xs @ s # ys) (packageId s) = Some []
          \<and> fetchAllComplianceData js E (xs @ s # ys) (packageId s) =
              Some (parseComplianceData js None)"
    if d: "distinct (map packageId (xs @ s # ys))"
  proof (intro conjI ballI)
    from d have last: "packageId s \<notin> packageId ` set ys" by auto
    from own [OF last]
    show "fetchAllSheets E (xs @ s # ys) (packageId s) = Some []"
      and "fetchAllComplianceData js E (xs @ s # ys) (packageId s) =
          Some (parseComplianceData js None)"
      by simp_all
    fix p assume "p \<in> set (xs @ ys)"
    with d have ne: "packageId p \<noteq> packageId s" by (auto simp add: image_iff)
    from other [OF ne]
    show "fetchAllSheets E (xs @ s # ys) (packageId p) =
        fetchAllSheets E (xs @ ys) (packageId p)"
      and "fetchAllComplianceData js E (xs @ s # ys) (packageId p) =
          fetchAllComplianceData js E (xs @ ys) (packageId p)"
      by simp_all
  qed
  have st: "status (parseComplianceData js None) = UNKNOWN"
    by (simp add: parseComplianceData_def)
  from other own dist st show ?thesis by blast
qed

text \<open>
  Two sources with the same package identifier, the second failing: alone the first gives
  its package one row and a \<^verbatim>\<open>NON_COMPLIANT\<close> record; with the failing one after
  it, the package has no row and an \<^verbatim>\<open>UNKNOWN\<close> record.
\<close>

theorem shared_packageId_counterexample:
  "fetch env_example (publishedXlsxUrl source_dup) =
     Some \<lparr>ok = False, statusText = ''Internal Server Error'', arrayBuffer = []\<rparr>
   \<and> map_option length (fetchAllSheets env_example [source1] ''P1'') = Some 1
   \<and> fetchAllSheets env_example [source1, source_dup] ''P1'' = Some []
   \<and> map_option status (fetchAllComplianceData js_example env_example [source1] ''P1'') =
       Some NON_COMPLIANT
   \<and> map_option status
        (fetchAllComplianceData js_example env_example [source1, source_dup] ''P1'') =
       Some UNKNOWN"
proof -
  have f: "fetch env_example (publishedXlsxUrl source_dup) =
     Some \<lparr>ok = False, statusText = ''Internal Server Error'', arrayBuffer = []\<rparr>"
    by (simp add: env_example_def source_dup_def)
  then have fw: "fetch_workbook env_example True source_dup =
      Inl (Error ''Failed to fetch XLSX: Internal Server Error'')"
    by (simp add: fetch_workbook_def)
  have ids: "packageId source_dup = ''P1''" by (simp add: source_dup_def)
  have sj: "sheet_to_json env_example = sheet_to_json_example"
    by (simp add: env_example_def)
  have ws: "Sheets workbook_example ''Data_Entry'' = Some sheet_example"
    by (simp add: workbook_example_def)
  have len: "length (sheet_to_json_example (Some sheet_example)) = 1"
    by (simp add: sheet_eval sheet_example_def)
  have r1: "sheet_rows env_example source1 = sheet_to_json_example (Some sheet_example)"
    by (simp add: sheet_rows_def fetchSheet_def fetch_workbook_source1 sheetName_of_examples
          Let_def sj ws)
  have v1: "map (\<lambda>row. (first_value row staffRfbNames, first_value row cesmpNames,
                        first_value row ohsNames))
     (sheet_to_json_example (Some sheet_example)) = [(JStr ''Yes'', JStr ''no'', JNull)]"
    by (simp add: sheet_eval sheet_example_def first_value_def first_present_def
          absent_or_empty_def staffRfbNames_def cesmpNames_def ohsNames_def)
  then obtain row1 where rs: "sheet_to_json_example (Some sheet_example) = [row1]"
    and fv1: "first_value row1 staffRfbNames = JStr ''Yes''"
      "first_value row1 cesmpNames = JStr ''no''" "first_value row1 ohsNames = JNull"
    by (auto simp add: map_eq_Cons_conv)
  have no: "parseYesNo js_example (JStr ''no'') = JStr ''No''"
    by (simp add: parseYesNo_def string_eval)
  have c1: "status (snd (fetchCompliance js_example env_example source1)) = NON_COMPLIANT"
    by (simp add: fetchCompliance_extract fetch_workbook_source1 sheetName_of_examples sj ws
          extract_compliance_def rs fv1 toString_or_null_def parseComplianceData_def no
          parseYesNo_Yes parseYesNo_Null)
  have c2: "status (snd (fetchCompliance js_example env_example source_dup)) = UNKNOWN"
    by (simp add: fetchCompliance_failed [OF fw] parseComplianceData_def)
  show ?thesis
    by (simp add: f fetchAllSheets_fold fetchAllComplianceData_fold set_entry_def
          packageId_examples ids r1 len sheet_rows_failed [OF fw] c1 c2)
qed

theorem source_failure_isolated_witness:
  "fetchAllSheets env_example [source1, source2, source3] =
     (fetchAllSheets env_example [source1, source3])(''P2'' \<mapsto> [])
   \<and> fetchAllComplianceData js_example env_example [source1, source2, source3] =
     (fetchAllComplianceData js_example env_example [source1, source3])
       (''P2'' \<mapsto> parseComplianceData js_example None)
   \<and> fetchAllSheets env_example [source1, source2, source3] ''P1'' =
       fetchAllSheets env_example [source1, source3] ''P1''
   \<and> fetchAllSheets env_example [source1, source2, source3] ''P2'' = Some []
   \<and> fetchAllSheets env_example [source4, source1] =
     (fetchAllSheets env_example [source1])(''P4'' \<mapsto> [])
   \<and> fetchAllSheets env_example [source1, source5] =
     (fetchAllSheets env_example [source1])(''P5'' \<mapsto> [])"
proof -
  have f2: "fetch env_example (publishedXlsxUrl source2) = None
     \<or> (\<exists>response. fetch env_example (publishedXlsxUrl source2) = Some response
           \<and> (\<not> ok response \<or> XLSX_read env_example True (arrayBuffer response) = None))"
    by (simp add: env_example_def source2_def)
  have f4: "fetch env_example (publishedXlsxUrl source4) = None
     \<or> (\<exists>response. fetch env_example (publishedXlsxUrl source4) = Some response
           \<and> (\<not> ok response \<or> XLSX_read env_example True (arrayBuffer response) = None))"
    by (simp add: env_example_def source4_def)
  have f5: "fetch env_example (publishedXlsxUrl source5) = None
     \<or> (\<exists>response. fetch env_example (publishedXlsxUrl source5) = Some response
           \<and> (\<not> ok response \<or> XLSX_read env_example True (arrayBuffer response) = None))"
    by (simp add: env_example_def source5_def)
  from source_failure_isolated [OF f2, of "[source1]" "[source3]" js_example]
    source_failure_isolated [OF f4, of "[]" "[source1]" js_example]
    source_failure_isolated [OF f5, of "[source1]" "[]" js_example]
  show ?thesis
    by (simp add: packageId_examples)
qed

section \<open>Worksheet selection\<close>

lemma sheetName_of_preferred:
  "SheetNames workbook \<noteq> [] \<Longrightarrow>
   Sheets workbook (sheetName_of workbook) = preferred_or_first workbook ''Data_Entry''"
  by (cases "SheetNames workbook") (simp_all add: sheetName_of_def preferred_or_first_def)

text \<open>
  C7, as the code has it.  In the fetch of task rows and in the fetch of compliance, the
  worksheet read is \<^verbatim>\<open>Data_Entry\<close> when the workbook lists a worksheet of that name,
  and the first worksheet of the workbook when it does not.  The fetch of IPC data reads
  the worksheet of the configured tab name and no other: when the workbook has none of
  that name, the result is the empty record list.
\<close>

theorem worksheet_selection:
  "(fetch_workbook E True source = Inr workbook \<and> SheetNames workbook \<noteq> [] \<longrightarrow>
      fetchSheet E source =
        Inr (packageId source, sheet_to_json E (preferred_or_first workbook ''Data_Entry''))
      \<and> fetchCompliance js E source =
        (packageId source,
         extract_compliance js (sheet_to_json E (preferred_or_first workbook ''Data_Entry''))))
   \<and> (fetch_workbook E False source = Inr workbook' \<longrightarrow>
      fetchAllIPCData js E tabName (source # rest) =
        (case Sheets workbook' tabName of
           None \<Rightarrow> \<lparr>records = []\<rparr>
         | Some sheet \<Rightarrow> parseIPCData js E sheet))"
proof (intro conjI impI)
  assume a: "fetch_workbook E True source = Inr workbook \<and> SheetNames workbook \<noteq> []"
  then show "fetchSheet E source =
        Inr (packageId source, sheet_to_json E (preferred_or_first workbook ''Data_Entry''))"
    by (simp add: fetchSheet_def Let_def sheetName_of_preferred)
  from a show "fetchCompliance js E source =
        (packageId source,
         extract_compliance js (sheet_to_json E (preferred_or_first workbook ''Data_Entry'')))"
    by (simp add: fetchCompliance_extract sheetName_of_preferred)
next
  assume "fetch_workbook E False source = Inr workbook'"
  then show "fetchAllIPCData js E tabName (source # rest) =
        (case Sheets workbook' tabName of
           None \<Rightarrow> \<lparr>records = []\<rparr>
         | Some sheet \<Rightarrow> parseIPCData js E sheet)"
    by (simp add: fetchAllIPCData_def fetchAllIPCData_try_def split: option.splits)
qed

text \<open>
  The workbook of the third source has no worksheet \<^verbatim>\<open>Data_Entry\<close>; its first
  worksheet is there and \<^verbatim>\<open>parseIPCData\<close> gives six records for it; the fetch of
  IPC data returns none.
\<close>

theorem ipc_no_fallback_counterexample:
  "fetch_workbook env_example False source3 = Inr workbook_renamed
   \<and> ''Data_Entry'' \<notin> set (SheetNames workbook_renamed)
   \<and> preferred_or_first workbook_renamed ''Data_Entry'' = Some sheet_blank
   \<and> length (records (parseIPCData js_example env_example sheet_blank)) = 6
   \<and> records (fetchAllIPCData js_example env_example ''Data_Entry'' [source3]) = []"
  by (simp add: fetch_workbook_source3 records_parseIPCData fetchAllIPCData_def
        fetchAllIPCData_try_def)
     (simp add: workbook_renamed_def preferred_or_first_def)

theorem worksheet_selection_witness:
  "map (map (\<lambda>row. row ''site_id'')) [snd (projr (fetchSheet env_example source3))] =
     [[JStr ''S-003'']]
   \<and> fst (projr (fetchSheet env_example source3)) = ''P3''
   \<and> status (snd (fetchCompliance js_example env_example source3)) = UNKNOWN
   \<and> issues (snd (fetchCompliance js_example env_example source3)) =
       [''All compliance fields are blank'']
   \<and> records (fetchAllIPCData js_example env_example ''Data_Entry'' [source3, source1]) = []
   \<and> map ipcStatus
        (records (fetchAllIPCData js_example env_example ''Data_Entry'' [source1, source3])) =
       [SStr ''released'', SStr ''in process'', SStr ''submitted'', SStr ''not submitted'',
        SNull, SStr ''released'']"
proof -
  have names: "SheetNames workbook_renamed \<noteq> []"
    by (simp add: workbook_renamed_def)
  have pf: "preferred_or_first workbook_renamed ''Data_Entry'' = Some sheet_blank"
    by (simp add: workbook_renamed_def preferred_or_first_def)
  have sj: "sheet_to_json env_example = sheet_to_json_example"
    by (simp add: env_example_def)
  have rows: "map (\<lambda>row. row ''site_id'') (sheet_to_json_example (Some sheet_blank)) =
      [JStr ''S-003'']"
    by (simp add: sheet_eval sheet_blank_def)
  have vals: "map (\<lambda>row. (first_value row staffRfbNames, first_value row cesmpNames,
                          first_value row ohsNames))
     (sheet_to_json_example (Some sheet_blank)) = [(JStr ''n/a'', JNull, JNull)]"
    by (simp add: sheet_eval sheet_blank_def first_value_def first_present_def
          absent_or_empty_def staffRfbNames_def cesmpNames_def ohsNames_def)
  from vals obtain row where rs: "sheet_to_json_example (Some sheet_blank) = [row]"
    and fv: "first_value row staffRfbNames = JStr ''n/a''" "first_value row cesmpNames = JNull"
      "first_value row ohsNames = JNull"
    by (auto simp add: map_eq_Cons_conv)
  have na: "parseYesNo js_example (JStr ''n/a'') = JNull"
    by (simp add: parseYesNo_def string_eval)
  have comp: "extract_compliance js_example (sheet_to_json_example (Some sheet_blank)) =
     \<lparr>no_of_staff_rfb = JNull, cesmps_submitted = JNull, ohs_measures = JNull,
      status = UNKNOWN, issues = [''All compliance fields are blank'']\<rparr>"
    by (simp add: extract_compliance_def rs fv parseComplianceData_def toString_or_null_def
          na parseYesNo_Null)
  have s1: "Sheets workbook_example ''Data_Entry'' = Some sheet_example"
    by (simp add: workbook_example_def)
  have s3: "Sheets workbook_renamed ''Data_Entry'' = None"
    by (simp add: workbook_renamed_def)
  have ipc: "map ipcStatus (records (parseIPCData js_example env_example sheet_example)) =
      [SStr ''released'', SStr ''in process'', SStr ''submitted'', SStr ''not submitted'',
       SNull, SStr ''released'']"
    by (simp add: records_parseIPCData ipc_record_def example_eval sheet_example_def
          string_eval statusMap_def ipcLabels_def)
  from worksheet_selection [of env_example source3 workbook_renamed js_example
      workbook_renamed "''Data_Entry''" "[source1]"]
    worksheet_selection [of env_example source1 workbook_example js_example
      workbook_example "''Data_Entry''" "[source3]"]
  show ?thesis
    by (simp add: fetch_workbook_source1 fetch_workbook_source3 names pf sj rows comp s1 s3
          ipc packageId_examples)
qed

section \<open>The header names of the compliance fields\<close>

text \<open>
  C6.  The search for a compliance field returns the value under the first name of the
  field's list, in the order of the list, under which the row has a value that is
  present and not empty, and \<^verbatim>\<open>null\<close> when there is none; a name matches a key of
  the row only when the two are the same string.  With a first row, the three fields of
  the source's record are the normalizer's results on the values found (for CESMPS and
  OHS, on their strings), and when all three are unknown the record is \<^verbatim>\<open>UNKNOWN\<close>
  with the one issue "All compliance fields are blank".  When the fetch fails or the
  worksheet gives no row, the record is \<^verbatim>\<open>UNKNOWN\<close> with the one issue "Compliance
  data not available".  With distinct package identifiers this record is the entry of
  the source's package in the map of \<^verbatim>\<open>fetchAllComplianceData\<close>.
\<close>

theorem compliance_header_search:
  "search_column r names =
     (case first_present r names of None \<Rightarrow> JNull | Some name \<Rightarrow> r name)
   \<and> (fetch_workbook E True source = Inr workbook
        \<and> sheet_to_json E (Sheets workbook (sheetName_of workbook)) = row # rest \<longrightarrow>
      (let c = snd (fetchCompliance js E source) in
         no_of_staff_rfb c = parseYesNo js (first_value row staffRfbNames)
         \<and> cesmps_submitted c = parseYesNo js (toString_or_null js (first_value row cesmpNames))
         \<and> ohs_measures c = parseYesNo js (toString_or_null js (first_value row ohsNames))
         \<and> (no_of_staff_rfb c = JNull \<and> cesmps_submitted c = JNull \<and> ohs_measures c = JNull
              \<longrightarrow> status c = UNKNOWN \<and> issues c = [''All compliance fields are blank''])))
   \<and> ((\<exists>e. fetch_workbook E True source = Inl e)
        \<or> (\<exists>workbook. fetch_workbook E True source = Inr workbook
              \<and> sheet_to_json E (Sheets workbook (sheetName_of workbook)) = []) \<longrightarrow>
      (let c = snd (fetchCompliance js E source) in
         status c = UNKNOWN \<and> issues c = [''Compliance data not available'']))
   \<and> (source \<in> set srcs \<and> distinct (map packageId srcs) \<longrightarrow>
      fetchAllComplianceData js E srcs (packageId source) =
        Some (snd (fetchCompliance js E source)))"
proof (intro conjI impI)
  show "search_column r names =
     (case first_present r names of None \<Rightarrow> JNull | Some name \<Rightarrow> r name)"
    using search_column_first_value [of r names] by (simp add: first_value_def)
next
  assume a: "fetch_workbook E True source = Inr workbook
        \<and> sheet_to_json E (Sheets workbook (sheetName_of workbook)) = row # rest"
  then have c: "snd (fetchCompliance js E source) =
      parseComplianceData js
        (Some \<lparr>raw_no_of_staff_rfb = first_value row staffRfbNames,
               raw_cesmps_submitted = toString_or_null js (first_value row cesmpNames),
               raw_ohs_measures = toString_or_null js (first_value row ohsNames)\<rparr>)"
    by (simp add: fetchCompliance_extract extract_compliance_def)
  show "let c = snd (fetchCompliance js E source) in
         no_of_staff_rfb c = parseYesNo js (first_value row staffRfbNames)
         \<and> cesmps_submitted c = parseYesNo js (toString_or_null js (first_value row cesmpNames))
         \<and> ohs_measures c = parseYesNo js (toString_or_null js (first_value row ohsNames))
         \<and> (no_of_staff_rfb c = JNull \<and> cesmps_submitted c = JNull \<and> ohs_measures c = JNull
              \<longrightarrow> status c = UNKNOWN \<and> issues c = [''All compliance fields are blank''])"
    unfolding c by (simp add: parseComplianceData_def Let_def)
next
  assume "(\<exists>e. fetch_workbook E True source = Inl e)
        \<or> (\<exists>workbook. fetch_workbook E True source = Inr workbook
              \<and> sheet_to_json E (Sheets workbook (sheetName_of workbook)) = [])"
  then have "snd (fetchCompliance js E source) = parseComplianceData js None"
    by (auto simp add: fetchCompliance_extract extract_compliance_def)
  then show "let c = snd (fetchCompliance js E source) in
         status c = UNKNOWN \<and> issues c = [''Compliance data not available'']"
    by (simp add: parseComplianceData_def)
next
  assume "source \<in> set srcs \<and> distinct (map packageId srcs)"
  then show "fetchAllComplianceData js E srcs (packageId source) =
      Some (snd (fetchCompliance js E source))"
    by (simp add: fetchAllComplianceData_fold fold_set_entry_distinct)
qed

theorem compliance_header_search_witness:
  "search_column row_priority staffRfbNames = JStr ''yes''
   \<and> search_column row_priority ohsNames = JNum (Finite 0)
   \<and> search_column row_priority cesmpNames = JNull
   \<and> map_option (\<lambda>c. (no_of_staff_rfb c, cesmps_submitted c, ohs_measures c))
        (fetchAllComplianceData js_example env_example [source1, source2, source3] ''P1'') =
       Some (JStr ''Yes'', JStr ''No'', JNull)
   \<and> map_option (\<lambda>c. (status c, issues c))
        (fetchAllComplianceData js_example env_example [source1, source2, source3] ''P2'') =
       Some (UNKNOWN, [''Compliance data not available''])
   \<and> map_option (\<lambda>c. (status c, issues c))
        (fetchAllComplianceData js_example env_example [source1, source2, source3] ''P3'') =
       Some (UNKNOWN, [''All compliance fields are blank''])"
proof -
  have fp: "first_present row_priority staffRfbNames = Some ''No of Staff RFB''"
    "first_present row_priority ohsNames = Some ''OHS''"
    "first_present row_priority cesmpNames = None"
    by (simp_all add: first_present_def absent_or_empty_def row_priority_def staffRfbNames_def
          ohsNames_def cesmpNames_def)
  have rp: "row_priority ''No of Staff RFB'' = JStr ''yes''"
    "row_priority ''OHS'' = JNum (Finite 0)"
    by (simp_all add: row_priority_def)
  have dist: "distinct (map packageId [source1, source2, source3])"
    by (simp add: packageId_examples)
  have sj: "sheet_to_json env_example = sheet_to_json_example"
    by (simp add: env_example_def)
  have ws: "Sheets workbook_example ''Data_Entry'' = Some sheet_example"
    "Sheets workbook_renamed ''Sheet1'' = Some sheet_blank"
    by (simp_all add: workbook_example_def workbook_renamed_def)
  have v1: "map (\<lambda>row. (first_value row staffRfbNames, first_value row cesmpNames,
                        first_value row ohsNames))
     (sheet_to_json_example (Some sheet_example)) = [(JStr ''Yes'', JStr ''no'', JNull)]"
    by (simp add: sheet_eval sheet_example_def first_value_def first_present_def
          absent_or_empty_def staffRfbNames_def cesmpNames_def ohsNames_def)
  then obtain row1 where r1: "sheet_to_json_example (Some sheet_example) = row1 # []"
    and fv1: "first_value row1 staffRfbNames = JStr ''Yes''"
      "first_value row1 cesmpNames = JStr ''no''" "first_value row1 ohsNames = JNull"
    by (auto simp add: map_eq_Cons_conv)
  have v3: "map (\<lambda>row. (first_value row staffRfbNames, first_value row cesmpNames,
                        first_value row ohsNames))
     (sheet_to_json_example (Some sheet_blank)) = [(JStr ''n/a'', JNull, JNull)]"
    by (simp add: sheet_eval sheet_blank_def first_value_def first_present_def
          absent_or_empty_def staffRfbNames_def cesmpNames_def ohsNames_def)
  then obtain row3 where r3: "sheet_to_json_example (Some sheet_blank) = row3 # []"
    and fv3: "first_value row3 staffRfbNames = JStr ''n/a''" "first_value row3 cesmpNames = JNull"
      "first_value row3 ohsNames = JNull"
    by (auto simp add: map_eq_Cons_conv)
  have py: "parseYesNo js_example (JStr ''n/a'') = JNull"
    "parseYesNo js_example (JStr ''no'') = JStr ''No''"
    by (simp_all add: parseYesNo_def string_eval)
  have ts: "toString_or_null js_example JNull = JNull"
    "toString_or_null js_example (JStr ''no'') = JStr ''no''"
    by (simp_all add: toString_or_null_def)
  note c1 = compliance_header_search [where r = row_priority and names = staffRfbNames
      and E = env_example and source = source1 and workbook = workbook_example
      and row = row1 and rest = "[]" and js = js_example
      and srcs = "[source1, source2, source3]"]
  note c2 = compliance_header_search [where r = row_priority and names = ohsNames
      and E = env_example and source = source2 and workbook = workbook_example
      and row = row1 and rest = "[]" and js = js_example
      and srcs = "[source1, source2, source3]"]
  note c3 = compliance_header_search [where r = row_priority and names = cesmpNames
      and E = env_example and source = source3 and workbook = workbook_renamed
      and row = row3 and rest = "[]" and js = js_example
      and srcs = "[source1, source2, source3]"]
  from c1 c2 c3 dist show ?thesis
    by (simp add: fp rp packageId_examples fetch_workbook_source1 fetch_workbook_source2
          fetch_workbook_source3 sheetName_of_examples ws sj r1 r3 fv1 fv3 py ts
          parseYesNo_Yes parseYesNo_Null Let_def)
qed

section \<open>Task rows\<close>

lemma falsy_cases:
  "(\<not> truthy val) =
   (absent_or_empty val \<or> val = JNum (Finite 0) \<or> val = JNum NaN \<or> val = JBool False)"
  by (cases val) (auto simp add: absent_or_empty_def)

lemma mapRowToTask_try_dropped:
  "\<not> truthy (row ''Site ID'') \<and> \<not> truthy (row ''site_id'') \<Longrightarrow>
   mapRowToTask_try js parseDMY row pid pname = Inr None"
  by (simp add: mapRowToTask_try_def)

lemma mapRowToTask_try_kept:
  assumes "truthy (row ''Site ID'') \<or> truthy (row ''site_id'')"
    and "\<forall>s. \<exists>d. parseDMY s = Inr d"
  shows "\<exists>t. mapRowToTask_try js parseDMY row pid pname = Inr (Some t)"
proof -
  from assms(2) obtain d1
    where d1: "parseDMY (getValue js row ''Planned Start'' ''planned_start'') = Inr d1"
    by blast
  from assms(2) obtain d2
    where d2: "parseDMY (getValue js row ''Planned Finish'' ''planned_finish'') = Inr d2"
    by blast
  from assms(2) obtain d3
    where d3: "parseDMY (getValue js row ''Actual Start'' ''actual_start'') = Inr d3"
    by blast
  from assms(2) obtain d4
    where d4: "parseDMY (getValue js row ''Actual Finish'' ''actual_finish'') = Inr d4"
    by blast
  from assms(2) obtain d5
    where d5: "parseDMY (getValue js row ''Last Updated'' ''last_updated'') = Inr d5"
    by blast
  from assms(1) show ?thesis
    unfolding mapRowToTask_try_def by (simp only: d1 d2 d3 d4 d5 sum.case) auto
qed

lemma truthy_text: "is_text_cell val \<Longrightarrow> truthy val = (\<not> absent_or_empty val)"
  by (cases val) (simp_all add: is_text_cell_def absent_or_empty_def)

lemma getValue_first_truthy:
  "getValue js row key1 key2 =
     (case first_truthy row key1 key2 of None \<Rightarrow> [] | Some val \<Rightarrow> trim (String_js js val))"
  by (simp add: getValue_def first_truthy_def js_or_def)

lemma truthy_not_empty:
  "truthy val \<Longrightarrow> val \<noteq> JNull \<and> val \<noteq> JUndefined \<and> val \<noteq> JStr []"
  by (cases val) simp_all

lemma getNumber_first_truthy:
  "first_truthy row key1 key2 = Some val \<Longrightarrow>
   getNumber js row key1 key2 =
     (if isNaN (Number_js js val) then None else Some (Number_js js val))"
  by (auto simp add: getNumber_def first_truthy_def js_or_def Let_def split: if_splits
        dest: truthy_not_empty)

lemma getNumber_none:
  "first_truthy row key1 key2 = None \<Longrightarrow> absent_or_empty (row key2) \<Longrightarrow>
   getNumber js row key1 key2 = None"
  by (auto simp add: getNumber_def first_truthy_def js_or_def absent_or_empty_def
        split: if_splits)

lemma first_truthy_text:
  "is_text_cell (row key1) \<Longrightarrow> is_text_cell (row key2) \<Longrightarrow>
   first_truthy row key1 key2 = first_non_empty row key1 key2"
  by (simp add: first_truthy_def first_non_empty_def truthy_text)

lemma text_fields_as_claimed:
  assumes "is_text_cell (row key1)" "is_text_cell (row key2)"
  shows "getValue js row key1 key2 = string_field_claimed js row key1 key2"
    and "getNumber js row key1 key2 = number_field_claimed js row key1 key2"
proof -
  note ft = first_truthy_text [OF assms]
  show "getValue js row key1 key2 = string_field_claimed js row key1 key2"
    by (simp add: getValue_first_truthy ft string_field_claimed_def)
  show "getNumber js row key1 key2 = number_field_claimed js row key1 key2"
  proof (cases "first_truthy row key1 key2")
    case None
    with ft have "first_non_empty row key1 key2 = None" by simp
    then have "absent_or_empty (row key2)"
      by (simp add: first_non_empty_def split: if_splits)
    from ft None have fn: "first_non_empty row key1 key2 = None" by simp
    from getNumber_none [OF None \<open>absent_or_empty (row key2)\<close>] show ?thesis
      by (simp add: number_field_claimed_def fn)
  next
    case (Some val)
    from ft Some have fn: "first_non_empty row key1 key2 = Some val" by simp
    show ?thesis
      by (simp add: getNumber_first_truthy [OF Some] number_field_claimed_def fn)
  qed
qed

lemma mapRowToTask_fields:
  assumes "mapRowToTask js parseDMY row pid pname = Some t"
  shows "package_id t = pid \<and> package_name t = pname
    \<and> district t = getValue js row ''District'' ''district''
    \<and> site_id t = getValue js row ''Site ID'' ''site_id''
    \<and> site_name t = getValue js row ''Site Name'' ''site_name''
    \<and> discipline t = getValue js row ''Discipline'' ''discipline''
    \<and> task_name t = getValue js row ''Task Name'' ''task_name''
    \<and> parseDMY (getValue js row ''Planned Start'' ''planned_start'') = Inr (planned_start t)
    \<and> parseDMY (getValue js row ''Planned Finish'' ''planned_finish'') = Inr (planned_finish t)
    \<and> planned_duration_days t =
        getNumber js row ''Planned Duration (Days)'' ''planned_duration_days''
    \<and> parseDMY (getValue js row ''Actual Start'' ''actual_start'') = Inr (actual_start t)
    \<and> parseDMY (getValue js row ''Actual Finish'' ''actual_finish'') = Inr (actual_finish t)
    \<and> progress_pct t = getNumber js row ''Progress %'' ''progress_pct''
    \<and> Variance t = getNumber js row ''Variance'' ''Variance''
    \<and> delay_flag_calc t = getValue js row ''Delay Flag'' ''delay_flag_calc''
    \<and> parseDMY (getValue js row ''Last Updated'' ''last_updated'') = Inr (last_updated t)
    \<and> remarks t = getValue js row ''Remarks'' ''remarks''
    \<and> photo_folder_url t = getValue js row ''Photo Folder'' ''photo_folder_url''
    \<and> cover_photo_share_url t = getValue js row ''Cover Photo'' ''cover_photo_share_url''
    \<and> before_photo_share_url t = getValue js row ''Before Photo'' ''before_photo_share_url''
    \<and> after_photo_share_url t = getValue js row ''After Photo'' ''after_photo_share_url''
    \<and> cover_photo_direct_url t = None \<and> before_photo_direct_url t = None
    \<and> after_photo_direct_url t = None"
  using assms unfolding mapRowToTask_def mapRowToTask_try_def
  by (auto split: if_splits sum.splits)

lemma parseDMY_example_total: "\<forall>s. \<exists>d. parseDMY_example s = Inr d"
  by (simp add: parseDMY_example_def)

text \<open>
  C4, as the code has it.  When the date reader does not raise, \<^verbatim>\<open>mapRowToTask\<close>
  returns \<^verbatim>\<open>null\<close> exactly when the cells \<^verbatim>\<open>Site ID\<close> and \<^verbatim>\<open>site_id\<close> of
  the row are both falsy, whatever the other cells hold: two rows that agree on these two
  cells are both dropped or both kept.  A cell is falsy when it is absent, \<^verbatim>\<open>null\<close>
  or the empty string, and also when it is the number 0 or \<^verbatim>\<open>NaN\<close> (or
  \<^verbatim>\<open>false\<close>, which the type of a row does not admit); so on rows whose two cells are
  strings, \<^verbatim>\<open>null\<close> or absent, the row is dropped exactly when both are absent or
  empty.
\<close>

theorem mapRowToTask_null_iff_site_falsy:
  assumes "\<forall>s. \<exists>d. parseDMY s = Inr d"
  shows "(mapRowToTask js parseDMY row pid pname = None) =
           (\<not> truthy (row ''Site ID'') \<and> \<not> truthy (row ''site_id''))
    \<and> (\<not> truthy val) =
        (absent_or_empty val \<or> val = JNum (Finite 0) \<or> val = JNum NaN \<or> val = JBool False)
    \<and> (is_text_cell (row ''Site ID'') \<and> is_text_cell (row ''site_id'') \<longrightarrow>
        (mapRowToTask js parseDMY row pid pname = None) =
          (absent_or_empty (row ''Site ID'') \<and> absent_or_empty (row ''site_id'')))
    \<and> (other ''Site ID'' = row ''Site ID'' \<and> other ''site_id'' = row ''site_id'' \<longrightarrow>
        (mapRowToTask js parseDMY other pid pname = None) =
          (mapRowToTask js parseDMY row pid pname = None))"
proof -
  have iff: "(mapRowToTask js parseDMY r pid pname = None) =
           (\<not> truthy (r ''Site ID'') \<and> \<not> truthy (r ''site_id''))" for r
  proof (cases "\<not> truthy (r ''Site ID'') \<and> \<not> truthy (r ''site_id'')")
    case True
    then show ?thesis
      by (simp add: mapRowToTask_def mapRowToTask_try_dropped)
  next
    case False
    then have "truthy (r ''Site ID'') \<or> truthy (r ''site_id'')" by blast
    from mapRowToTask_try_kept [OF this assms, where js = js and pid = pid and pname = pname]
    obtain t where "mapRowToTask_try js parseDMY r pid pname = Inr (Some t)" ..
    with False show ?thesis by (simp add: mapRowToTask_def)
  qed
  show ?thesis
  proof (intro conjI impI)
    show "(mapRowToTask js parseDMY row pid pname = None) =
           (\<not> truthy (row ''Site ID'') \<and> \<not> truthy (row ''site_id''))"
      by (rule iff)
    show "(\<not> truthy val) =
        (absent_or_empty val \<or> val = JNum (Finite 0) \<or> val = JNum NaN \<or> val = JBool False)"
      by (rule falsy_cases)
    show "(mapRowToTask js parseDMY row pid pname = None) =
          (absent_or_empty (row ''Site ID'') \<and> absent_or_empty (row ''site_id''))"
      if "is_text_cell (row ''Site ID'') \<and> is_text_cell (row ''site_id'')"
      using that by (simp add: iff truthy_text)
    show "(mapRowToTask js parseDMY other pid pname = None) =
          (mapRowToTask js parseDMY row pid pname = None)"
      if "other ''Site ID'' = row ''Site ID'' \<and> other ''site_id'' = row ''site_id''"
      using that by (simp add: iff)
  qed
qed

text \<open>
  A row whose \<^verbatim>\<open>Site ID\<close> is the number 0: the cell is there and is not empty, and
  the row is dropped.
\<close>

theorem mapRowToTask_zero_site_counterexample:
  "\<not> absent_or_empty (row_zero_site ''Site ID'')
   \<and> mapRowToTask js_example parseDMY_example row_zero_site ''P1'' ''Package 1'' = None"
  by (simp add: absent_or_empty_def row_zero_site_def mapRowToTask_def mapRowToTask_try_def)

theorem mapRowToTask_null_iff_site_falsy_witness:
  "mapRowToTask js_example parseDMY_example row_example ''P1'' ''Package 1'' \<noteq> None
   \<and> mapRowToTask js_example parseDMY_example (row_example(''Task Name'' := JNum NaN))
        ''P1'' ''Package 1'' \<noteq> None
   \<and> mapRowToTask js_example parseDMY_example row_zero_site ''P1'' ''Package 1'' = None
   \<and> mapRowToTask js_example parseDMY_example
        (\<lambda>key. if key = ''site_id'' then JStr ''S-9'' else JNull) ''P1'' ''Package 1'' \<noteq> None
   \<and> mapRowToTask js_example parseDMY_example
        (\<lambda>key. if key = ''Site Name'' then JStr ''Depot'' else JNull) ''P1'' ''Package 1'' = None
   \<and> \<not> truthy (JNum (Finite 0))"
proof -
  have r: "row_example ''Site ID'' = JStr ''S-001''" "row_example ''site_id'' = JUndefined"
    "row_zero_site ''Site ID'' = JNum (Finite 0)" "row_zero_site ''site_id'' = JUndefined"
    by (simp_all add: row_example_def row_zero_site_def)
  note w1 = mapRowToTask_null_iff_site_falsy [OF parseDMY_example_total, where js = js_example
      and row = row_example and pid = "''P1''" and pname = "''Package 1''"
      and val = "JNum (Finite 0)" and other = "row_example(''Task Name'' := JNum NaN)"]
  note w2 = mapRowToTask_null_iff_site_falsy [OF parseDMY_example_total, where js = js_example
      and row = row_zero_site and pid = "''P1''" and pname = "''Package 1''"
      and val = "JNum (Finite 0)" and other = row_zero_site]
  note w3 = mapRowToTask_null_iff_site_falsy [OF parseDMY_example_total, where js = js_example
      and row = "\<lambda>key. if key = ''site_id'' then JStr ''S-9'' else JNull"
      and pid = "''P1''" and pname = "''Package 1''" and val = "JNum (Finite 0)"
      and other = "\<lambda>key. if key = ''site_id'' then JStr ''S-9'' else JNull"]
  note w4 = mapRowToTask_null_iff_site_falsy [OF parseDMY_example_total, where js = js_example
      and row = "\<lambda>key. if key = ''Site Name'' then JStr ''Depot'' else JNull"
      and pid = "''P1''" and pname = "''Package 1''" and val = "JNum (Finite 0)"
      and other = "\<lambda>key. if key = ''Site Name'' then JStr ''Depot'' else JNull"]
  from w1 w2 w3 w4 show ?thesis
    by (simp add: r is_text_cell_def absent_or_empty_def)
qed

text \<open>
  The fields of a task as the code has them.  A field is read under its two spellings
  and the first truthy one wins.  A string field is the winning value as a trimmed
  string, and the empty string when neither is truthy.  A numeric field is the winning
  value as a number, or \<^verbatim>\<open>null\<close> when that is \<^verbatim>\<open>NaN\<close>; it is \<^verbatim>\<open>null\<close> when
  neither is truthy and the second is absent, \<^verbatim>\<open>null\<close> or empty.  On cells that are
  strings, \<^verbatim>\<open>null\<close> or absent, truthy means not empty, and both kinds of field are
  as the specification words them.  The fields of a returned task are these values under
  the spellings of the source, a date field being what the date reader returns for the
  string value.  An exception inside the mapping does not leave it: the result is
  \<^verbatim>\<open>null\<close>.
\<close>

lemma task_field_spellings:
  "getValue js row ka kb =
     (case first_truthy row ka kb of None \<Rightarrow> [] | Some val \<Rightarrow> trim (String_js js val))
   \<and> (first_truthy row ka kb = Some val \<longrightarrow>
        getNumber js row ka kb =
          (if isNaN (Number_js js val) then None else Some (Number_js js val)))
   \<and> (first_truthy row ka kb = None \<and> absent_or_empty (row kb) \<longrightarrow>
        getNumber js row ka kb = None)
   \<and> (is_text_cell (row ka) \<and> is_text_cell (row kb) \<longrightarrow>
        getValue js row ka kb = string_field_claimed js row ka kb
        \<and> getNumber js row ka kb = number_field_claimed js row ka kb)
   \<and> (mapRowToTask js parseDMY row pid pname = Some t \<longrightarrow>
        package_id t = pid \<and> package_name t = pname
        \<and> district t = getValue js row ''District'' ''district''
        \<and> site_id t = getValue js row ''Site ID'' ''site_id''
        \<and> site_name t = getValue js row ''Site Name'' ''site_name''
        \<and> discipline t = getValue js row ''Discipline'' ''discipline''
        \<and> task_name t = getValue js row ''Task Name'' ''task_name''
        \<and> parseDMY (getValue js row ''Planned Start'' ''planned_start'') = Inr (planned_start t)
        \<and> parseDMY (getValue js row ''Planned Finish'' ''planned_finish'') =
            Inr (planned_finish t)
        \<and> planned_duration_days t =
            getNumber js row ''Planned Duration (Days)'' ''planned_duration_days''
        \<and> parseDMY (getValue js row ''Actual Start'' ''actual_start'') = Inr (actual_start t)
        \<and> parseDMY (getValue js row ''Actual Finish'' ''actual_finish'') = Inr (actual_finish t)
        \<and> progress_pct t = getNumber js row ''Progress %'' ''progress_pct''
        \<and> Variance t = getNumber js row ''Variance'' ''Variance''
        \<and> delay_flag_calc t = getValue js row ''Delay Flag'' ''delay_flag_calc''
        \<and> parseDMY (getValue js row ''Last Updated'' ''last_updated'') = Inr (last_updated t)
        \<and> remarks t = getValue js row ''Remarks'' ''remarks''
        \<and> photo_folder_url t = getValue js row ''Photo Folder'' ''photo_folder_url''
        \<and> cover_photo_share_url t = getValue js row ''Cover Photo'' ''cover_photo_share_url''
        \<and> before_photo_share_url t =
            getValue js row ''Before Photo'' ''before_photo_share_url''
        \<and> after_photo_share_url t = getValue js row ''After Photo'' ''after_photo_share_url''
        \<and> cover_photo_direct_url t = None \<and> before_photo_direct_url t = None
        \<and> after_photo_direct_url t = None)
   \<and> (mapRowToTask_try js parseDMY row pid pname = Inl e \<longrightarrow>
        mapRowToTask js parseDMY row pid pname = None)"
proof (intro conjI impI)
  show "getValue js row ka kb =
     (case first_truthy row ka kb of None \<Rightarrow> [] | Some val \<Rightarrow> trim (String_js js val))"
    by (rule getValue_first_truthy)
  show "getNumber js row ka kb =
          (if isNaN (Number_js js val) then None else Some (Number_js js val))"
    if "first_truthy row ka kb = Some val"
    using that by (rule getNumber_first_truthy)
  show "getNumber js row ka kb = None"
    if "first_truthy row ka kb = None \<and> absent_or_empty (row kb)"
    using that by (simp add: getNumber_none)
  show "getValue js row ka kb = string_field_claimed js row ka kb"
    if "is_text_cell (row ka) \<and> is_text_cell (row kb)"
    using that by (simp add: text_fields_as_claimed)
  show "getNumber js row ka kb = number_field_claimed js row ka kb"
    if "is_text_cell (row ka) \<and> is_text_cell (row kb)"
    using that by (simp add: text_fields_as_claimed)
  show "mapRowToTask js parseDMY row pid pname = None"
    if "mapRowToTask_try js parseDMY row pid pname = Inl e"
    using that by (simp add: mapRowToTask_def)
qed (simp_all add: mapRowToTask_fields)

text \<open>
  C8.  On cells that are strings, \<^verbatim>\<open>null\<close> or absent, the first spelling that is
  not empty wins, a value that is not a number gives \<^verbatim>\<open>null\<close>, and the mapping
  never raises, as the lemma above has it.  On the number 0 the numeric helper is at
  odds with itself: under the first spelling \<^verbatim>\<open>Progress %\<close> the cell is not empty,
  and the first spelling that is not empty is the number 0, yet \<^verbatim>\<open>||\<close> passes it
  over and the field of the task is \<^verbatim>\<open>null\<close>; under the second spelling
  \<^verbatim>\<open>progress_pct\<close> alone, and under \<^verbatim>\<open>Variance\<close>, whose two spellings are one,
  the same 0 is returned as 0, and the helper's own test for an empty value
  (\<^verbatim>\<open>null\<close>, \<^verbatim>\<open>undefined\<close>, the empty string) spares it.
\<close>

theorem task_number_zero_passed_over:
  "number_field_claimed js row_zero_progress ''Progress %'' ''progress_pct'' = Some (Finite 0)
   \<and> map_option progress_pct
        (mapRowToTask js parseDMY_example row_zero_progress ''P1'' ''Package 1'') = Some None
   \<and> map_option progress_pct
        (mapRowToTask js parseDMY_example row_zero_second ''P1'' ''Package 1'') =
       Some (Some (Finite 0))
   \<and> map_option Variance
        (mapRowToTask js parseDMY_example row_zero_variance ''P1'' ''Package 1'') =
       Some (Some (Finite 0))"
proof -
  have r: "row_zero_progress ''Progress %'' = JNum (Finite 0)"
    "row_zero_progress ''progress_pct'' = JUndefined"
    "row_zero_progress ''Site ID'' = JStr ''S-002''"
    "row_zero_second ''Progress %'' = JUndefined"
    "row_zero_second ''progress_pct'' = JNum (Finite 0)"
    "row_zero_second ''Site ID'' = JStr ''S-002''"
    "row_zero_variance ''Variance'' = JNum (Finite 0)"
    "row_zero_variance ''Site ID'' = JStr ''S-002''"
    by (simp_all add: row_zero_progress_def row_zero_second_def row_zero_variance_def)
  have a: "number_field_claimed js row_zero_progress ''Progress %'' ''progress_pct'' =
     Some (Finite 0)"
    by (simp add: number_field_claimed_def first_non_empty_def absent_or_empty_def r isNaN_def)
  have g: "getNumber js row_zero_progress ''Progress %'' ''progress_pct'' = None"
    "getNumber js row_zero_second ''Progress %'' ''progress_pct'' = Some (Finite 0)"
    "getNumber js row_zero_variance ''Variance'' ''Variance'' = Some (Finite 0)"
    by (simp_all add: getNumber_def js_or_def r isNaN_def)
  have kept: "\<exists>t. mapRowToTask js parseDMY_example row ''P1'' ''Package 1'' = Some t"
    if "truthy (row ''Site ID'') \<or> truthy (row ''site_id'')" for row
    using mapRowToTask_try_kept [OF that parseDMY_example_total, where js = js
      and pid = "''P1''" and pname = "''Package 1''"]
    by (auto simp add: mapRowToTask_def)
  from kept [of row_zero_progress] obtain t1 where
    t1: "mapRowToTask js parseDMY_example row_zero_progress ''P1'' ''Package 1'' = Some t1"
    by (auto simp add: r)
  from kept [of row_zero_second] obtain t2 where
    t2: "mapRowToTask js parseDMY_example row_zero_second ''P1'' ''Package 1'' = Some t2"
    by (auto simp add: r)
  from kept [of row_zero_variance] obtain t3 where
    t3: "mapRowToTask js parseDMY_example row_zero_variance ''P1'' ''Package 1'' = Some t3"
    by (auto simp add: r)
  from mapRowToTask_fields [OF t1] mapRowToTask_fields [OF t2] mapRowToTask_fields [OF t3]
  have "progress_pct t1 = None" "progress_pct t2 = Some (Finite 0)"
    "Variance t3 = Some (Finite 0)"
    by (simp_all add: g)
  with a t1 t2 t3 show ?thesis by simp
qed

end
